theory Spec2Isabelle
  imports Main "HOL-Library.Word"
begin

section \<open>JavaScript values\<close>

text \<open>
  The adapter (\<^verbatim>\<open>src/webvizio-client.ts\<close>) and the tool server (\<^verbatim>\<open>src/server.ts\<close>) pass
  untyped JavaScript values around: response bodies parsed from JSON, the \<^verbatim>\<open>McpError\<close> object
  literals, the values a handler interpolates into its text. They are modelled by the datatype
  \<open>jsval\<close>. Numbers are the integers from \<open>-2\<^sup>5\<^sup>3\<close> to \<open>2\<^sup>5\<^sup>3 - 1\<close>, a 54-bit word read
  in two's complement: every one of them is a number of JavaScript and is printed with
  exactly its decimal digits. Fractions, NaN, the infinities and larger numbers are outside
  the model. A string is the list of its code units, each below 256: one character is one
  unit of length, and \<^verbatim>\<open>JSON.stringify\<close> escapes none of them but the quote, the backslash
  and the control characters. An object is the list of its own enumerable properties in
  enumeration order; the keys of a well-formed object are distinct. None of these values is
  callable, as no value parsed from JSON is.
\<close>

type_synonym js_int = "54 word"

datatype jsval =
    JUndefined
  | JNull
  | JBool bool
  | JNum js_int
  | JStr string
  | JArr "jsval list"
  | JObj "(string \<times> jsval) list"

text \<open>\<^verbatim>\<open>ToBoolean\<close>: what \<^verbatim>\<open>!x\<close>, \<^verbatim>\<open>x || y\<close>, \<^verbatim>\<open>x ? a : b\<close> and \<^verbatim>\<open>if (x)\<close> test.\<close>

fun truthy :: "jsval \<Rightarrow> bool" where
  "truthy JUndefined = False"
| "truthy JNull = False"
| "truthy (JBool b) = b"
| "truthy (JNum n) = (n \<noteq> 0)"
| "truthy (JStr s) = (s \<noteq> [])"
| "truthy (JArr xs) = True"
| "truthy (JObj kvs) = True"

text \<open>\<^verbatim>\<open>a || b\<close> evaluates to \<open>a\<close> when it is truthy and to \<open>b\<close> otherwise.\<close>

definition js_or :: "jsval \<Rightarrow> jsval \<Rightarrow> jsval" where
  "js_or a b = (if truthy a then a else b)"

definition nullish :: "jsval \<Rightarrow> bool" where
  "nullish v = (v = JUndefined \<or> v = JNull)"

text \<open>\<^verbatim>\<open>typeof v === 'boolean'\<close> and \<^verbatim>\<open>typeof v === 'object'\<close>.\<close>

fun is_boolean :: "jsval \<Rightarrow> bool" where
  "is_boolean (JBool b) = True"
| "is_boolean v = False"

fun typeof_object :: "jsval \<Rightarrow> bool" where
  "typeof_object JNull = True"
| "typeof_object (JArr xs) = True"
| "typeof_object (JObj kvs) = True"
| "typeof_object v = False"

text \<open>
  \<open>get_prop v k\<close> is \<^verbatim>\<open>v?.k\<close>: the property \<open>k\<close> of \<open>v\<close>, \<^verbatim>\<open>undefined\<close> when \<open>v\<close> is
  \<^verbatim>\<open>null\<close> or \<^verbatim>\<open>undefined\<close> or has no such property. The source reads the properties
  \<^verbatim>\<open>code\<close>, \<^verbatim>\<open>message\<close>, \<^verbatim>\<open>details\<close>, \<^verbatim>\<open>error\<close>, \<^verbatim>\<open>prompt\<close>, \<^verbatim>\<open>description\<close>,
  \<^verbatim>\<open>screenshot\<close>, \<^verbatim>\<open>success\<close>, \<^verbatim>\<open>uuid\<close> and \<^verbatim>\<open>length\<close>; of these only \<^verbatim>\<open>length\<close> exists
  on arrays and strings, and none is inherited by an object. An array of JavaScript has
  fewer than \<open>2\<^sup>3\<^sup>2\<close> elements; a longer list does not stand for one.
\<close>

fun get_prop :: "jsval \<Rightarrow> string \<Rightarrow> jsval" where
  "get_prop (JObj kvs) k = (case map_of kvs k of Some v \<Rightarrow> v | None \<Rightarrow> JUndefined)"
| "get_prop (JArr xs) k = (if k = ''length'' then JNum (word_of_nat (length xs)) else JUndefined)"
| "get_prop (JStr s) k = (if k = ''length'' then JNum (word_of_nat (length s)) else JUndefined)"
| "get_prop v k = JUndefined"

text \<open>
  \<^verbatim>\<open>k in v\<close>, for a \<open>v\<close> with \<^verbatim>\<open>typeof v === 'object'\<close> that is not \<^verbatim>\<open>null\<close> and for the keys
  the source tests, \<^verbatim>\<open>code\<close> and \<^verbatim>\<open>message\<close>: no prototype of an object or an array has them,
  so that the own properties decide.
\<close>

fun has_prop :: "jsval \<Rightarrow> string \<Rightarrow> bool" where
  "has_prop (JObj kvs) k = (k \<in> set (map fst kvs))"
| "has_prop (JArr xs) k = (k = ''length'')"
| "has_prop v k = False"

section \<open>Thrown values\<close>

text \<open>
  A \<^verbatim>\<open>throw\<close> or a rejected promise carries either a plain value (\<open>Thrown\<close>: the adapter's
  response interceptor rejects with the object literal built by \<^verbatim>\<open>handleApiError\<close>) or an
  instance of \<^verbatim>\<open>Error\<close> (\<open>ErrorInstance\<close>: its \<^verbatim>\<open>message\<close> and its further own properties,
  such as the \<^verbatim>\<open>code\<close> an error of the HTTP library carries).
\<close>

datatype thrown =
    Thrown jsval
  | ErrorInstance string "(string \<times> jsval) list"

text \<open>The \<^verbatim>\<open>TypeError\<close> of reading property \<open>k\<close> of \<^verbatim>\<open>null\<close> or \<^verbatim>\<open>undefined\<close>.\<close>

definition TypeError_read :: "jsval \<Rightarrow> string \<Rightarrow> thrown" where
  "TypeError_read v k =
     ErrorInstance (''Cannot read properties of '' @ (if v = JNull then ''null'' else ''undefined'')
                    @ '' (reading '' @ [CHR 0x27] @ k @ [CHR 0x27] @ '')'') []"

text \<open>The \<^verbatim>\<open>TypeError\<close> of converting an object that has no callable \<^verbatim>\<open>toString\<close>.\<close>

definition TypeError_primitive :: thrown where
  "TypeError_primitive = ErrorInstance ''Cannot convert object to primitive value'' []"

text \<open>\<^verbatim>\<open>v.k\<close> without optional chaining: throws on \<^verbatim>\<open>null\<close> and \<^verbatim>\<open>undefined\<close>.\<close>

definition read_prop :: "jsval \<Rightarrow> string \<Rightarrow> thrown + jsval" where
  "read_prop v k = (if nullish v then Inl (TypeError_read v k) else Inr (get_prop v k))"

text \<open>\<^verbatim>\<open>error.k\<close> for a caught value that is not \<^verbatim>\<open>null\<close> or \<^verbatim>\<open>undefined\<close>.\<close>

fun thrown_prop :: "thrown \<Rightarrow> string \<Rightarrow> jsval" where
  "thrown_prop (Thrown v) k = get_prop v k"
| "thrown_prop (ErrorInstance msg props) k =
     (if k = ''message'' then JStr msg
      else case map_of props k of Some v \<Rightarrow> v | None \<Rightarrow> JUndefined)"

text \<open>
  \<^verbatim>\<open>isMcpError\<close> (the same body in both classes):
  \<^verbatim>\<open>error && typeof error === 'object' && 'code' in error && 'message' in error\<close>.
  An \<^verbatim>\<open>Error\<close> instance always has \<^verbatim>\<open>message\<close>, through its prototype.
\<close>

fun isMcpError :: "thrown \<Rightarrow> bool" where
  "isMcpError (Thrown v) =
     (truthy v \<and> typeof_object v \<and> has_prop v ''code'' \<and> has_prop v ''message'')"
| "isMcpError (ErrorInstance msg props) = (''code'' \<in> set (map fst props))"

text \<open>
  The first failure of a list of computations that run in order, or all their values.
\<close>

fun first_thrown :: "(thrown + 'a) list \<Rightarrow> thrown + 'a list" where
  "first_thrown [] = Inr []"
| "first_thrown (Inl t # rs) = Inl t"
| "first_thrown (Inr v # rs) =
     (case first_thrown rs of Inl t \<Rightarrow> Inl t | Inr vs \<Rightarrow> Inr (v # vs))"

section \<open>Conversion to a string\<close>

definition digit_char :: "nat \<Rightarrow> char" where
  "digit_char d = ''0123456789'' ! d"

function show_nat :: "nat \<Rightarrow> string" where
  "show_nat n = (if n < 10 then [digit_char n] else show_nat (n div 10) @ [digit_char (n mod 10)])"
  by pat_completeness auto
termination
  by (relation "measure (\<lambda>n. n)") auto

declare show_nat.simps [simp del]

definition show_int :: "int \<Rightarrow> string" where
  "show_int i = (if i < 0 then CHR ''-'' # show_nat (nat (- i)) else show_nat (nat i))"

text \<open>\<^verbatim>\<open>Array.prototype.join\<close> on strings.\<close>

fun join :: "string \<Rightarrow> string list \<Rightarrow> string" where
  "join sep [] = []"
| "join sep [x] = x"
| "join sep (x # y # ys) = x @ sep @ join sep (y # ys)"

text \<open>\<^verbatim>\<open>Number.prototype.toString\<close> on the numbers of the model: the decimal digits.\<close>

definition Number_toString :: "js_int \<Rightarrow> string" where
  "Number_toString n = show_int (sint n)"

text \<open>
  \<open>ToString v\<close> is what a template literal \<^verbatim>\<open>`${v}`\<close> and the \<^verbatim>\<open>Error\<close> constructor make of
  \<open>v\<close>: the string, or the \<^verbatim>\<open>TypeError\<close> the conversion throws (\<open>Inl\<close>). An object is
  converted by its \<^verbatim>\<open>toString\<close> and then its \<^verbatim>\<open>valueOf\<close>, where they are callable. An object
  without an own \<^verbatim>\<open>toString\<close> key inherits the one that answers \<^verbatim>\<open>[object Object]\<close>. An own
  \<^verbatim>\<open>toString\<close> key holds a value that is not callable; \<^verbatim>\<open>valueOf\<close>, own or inherited, then
  yields no primitive value either, and the conversion throws. An array is its elements joined
  by commas, converted in order, \<^verbatim>\<open>null\<close> and \<^verbatim>\<open>undefined\<close> elements empty.
\<close>

fun ToString :: "jsval \<Rightarrow> thrown + string" where
  "ToString JUndefined = Inr ''undefined''"
| "ToString JNull = Inr ''null''"
| "ToString (JBool b) = Inr (if b then ''true'' else ''false'')"
| "ToString (JNum n) = Inr (Number_toString n)"
| "ToString (JStr s) = Inr s"
| "ToString (JArr xs) =
     (case first_thrown
             (map (\<lambda>x. if x = JUndefined \<or> x = JNull then Inr [] else ToString x) xs) of
        Inl t \<Rightarrow> Inl t
      | Inr ss \<Rightarrow> Inr (join '','' ss))"
| "ToString (JObj kvs) =
     (if ''toString'' \<in> set (map fst kvs) then Inl TypeError_primitive
      else Inr ''[object Object]'')"

section \<open>\<^verbatim>\<open>JSON.stringify(v, null, 2)\<close>\<close>

definition newline :: char where
  "newline = CHR 0x0A"

definition hex_char :: "nat \<Rightarrow> char" where
  "hex_char d = ''0123456789abcdef'' ! d"

definition QuoteJSONChar :: "char \<Rightarrow> string" where
  "QuoteJSONChar c =
     (if c = CHR 0x22 then [CHR 0x5C, CHR 0x22]
      else if c = CHR 0x5C then [CHR 0x5C, CHR 0x5C]
      else if c = CHR 0x08 then [CHR 0x5C, CHR ''b'']
      else if c = CHR 0x0C then [CHR 0x5C, CHR ''f'']
      else if c = CHR 0x0A then [CHR 0x5C, CHR ''n'']
      else if c = CHR 0x0D then [CHR 0x5C, CHR ''r'']
      else if c = CHR 0x09 then [CHR 0x5C, CHR ''t'']
      else if (of_char c :: nat) < 32
        then [CHR 0x5C, CHR ''u'', CHR ''0'', CHR ''0'',
              hex_char (of_char c div 16), hex_char (of_char c mod 16)]
      else [c])"

definition QuoteJSONString :: "string \<Rightarrow> string" where
  "QuoteJSONString s = CHR 0x22 # concat (map QuoteJSONChar s) @ [CHR 0x22]"

text \<open>
  The serialisation of ECMAScript's \<^verbatim>\<open>SerializeJSONProperty\<close> with the gap of two spaces;
  the first argument is the current indentation. \<^verbatim>\<open>undefined\<close> has no serialisation
  (\<open>None\<close>): it is left out of an object and printed as \<^verbatim>\<open>null\<close> in an array. A key
  \<^verbatim>\<open>toJSON\<close> holds a value that is not callable and is printed like any other.
\<close>

fun SerializeJSONProperty :: "string \<Rightarrow> jsval \<Rightarrow> string option" where
  "SerializeJSONProperty ind JUndefined = None"
| "SerializeJSONProperty ind JNull = Some ''null''"
| "SerializeJSONProperty ind (JBool b) = Some (if b then ''true'' else ''false'')"
| "SerializeJSONProperty ind (JNum n) = Some (Number_toString n)"
| "SerializeJSONProperty ind (JStr s) = Some (QuoteJSONString s)"
| "SerializeJSONProperty ind (JArr xs) =
     (if xs = [] then Some ''[]''
      else
        let stepback = ind;
            ind' = ind @ ''  '';
            partial = map (\<lambda>x. case SerializeJSONProperty ind' x of
                                   None \<Rightarrow> ''null'' | Some s \<Rightarrow> s) xs
        in Some (''['' @ [newline] @ ind' @ join ('','' @ [newline] @ ind') partial
                 @ [newline] @ stepback @ '']''))"
| "SerializeJSONProperty ind (JObj kvs) =
     (let stepback = ind;
          ind' = ind @ ''  '';
          partial = concat (map (\<lambda>(k, v). case SerializeJSONProperty ind' v of
                                   None \<Rightarrow> []
                                 | Some s \<Rightarrow> [QuoteJSONString k @ '': '' @ s]) kvs)
      in if partial = [] then Some ''{}''
         else Some (''{'' @ [newline] @ ind' @ join ('','' @ [newline] @ ind') partial
                    @ [newline] @ stepback @ ''}''))"

text \<open>\<^verbatim>\<open>JSON.stringify(v, null, 2)\<close>: a string, or \<^verbatim>\<open>undefined\<close> for \<^verbatim>\<open>undefined\<close>.\<close>

definition JSON_stringify :: "jsval \<Rightarrow> jsval" where
  "JSON_stringify v = (case SerializeJSONProperty [] v of None \<Rightarrow> JUndefined | Some s \<Rightarrow> JStr s)"

text \<open>
  \<^verbatim>\<open>`${JSON.stringify(v, null, 2)}`\<close>: the conversion of a string or of \<^verbatim>\<open>undefined\<close>, which
  does not throw.
\<close>

definition JSON_text :: "jsval \<Rightarrow> string" where
  "JSON_text v = (case SerializeJSONProperty [] v of None \<Rightarrow> ''undefined'' | Some s \<Rightarrow> s)"

section \<open>The HTTP layer\<close>

text \<open>
  The HTTP library is not part of the repository: what it answers is a parameter. A request
  through the configured instance (\<^verbatim>\<open>this.client\<close>) either resolves with a response or
  rejects with the library's error, which has an optional \<^verbatim>\<open>response\<close>, a \<^verbatim>\<open>request\<close> (here:
  whether it is set) and a \<^verbatim>\<open>message\<close>. With the library's default status validation, a
  response whose status is outside 2xx arrives as a rejection that carries the response.
\<close>

record http_response =
  status :: js_int
  statusText :: string
  data :: jsval

record AxiosError =
  response :: "http_response option"
  request :: bool
  message :: string

datatype axios_outcome = Resolved http_response | Rejected AxiosError

text \<open>
  The second request of \<^verbatim>\<open>getTaskScreenshot\<close> goes through the library's global instance,
  which has no interceptor: it resolves with the bytes of the body
  (\<^verbatim>\<open>responseType: 'arraybuffer'\<close>) or rejects with whatever the library throws.
\<close>

datatype raw_outcome = RawResolved "8 word list" | RawRejected thrown

record WebvizioConfig =
  apiKey :: string
  baseUrl :: string

datatype http_method = GET | POST

datatype response_type = Json | ArrayBuffer

text \<open>
  A dispatched request, as the source configures it. \<open>url\<close> is a value because the
  screenshot URL is taken from a response body as it comes.
\<close>

record http_call =
  verb :: http_method
  baseURL :: string
  url :: jsval
  headers :: "(string \<times> string) list"
  body :: jsval
  responseType :: response_type

record net =
  api_reply :: "http_call \<Rightarrow> axios_outcome"
  raw_reply :: "http_call \<Rightarrow> raw_outcome"

text \<open>
  The outcome of an \<^verbatim>\<open>async\<close> function together with the requests it dispatched, in order:
  \<open>Inl\<close> is a rejection with the thrown value, \<open>Inr\<close> the value it resolves with. The
  diagnostic \<^verbatim>\<open>console.error\<close> lines are not modelled.
\<close>

type_synonym 'a promise = "(thrown + 'a) \<times> http_call list"

subsection \<open>\<^verbatim>\<open>WebvizioClient.handleApiError\<close>\<close>

definition McpError :: "jsval \<Rightarrow> jsval \<Rightarrow> jsval \<Rightarrow> jsval" where
  "McpError c m d = JObj [(''code'', c), (''message'', m), (''details'', d)]"

definition handleApiError :: "AxiosError \<Rightarrow> jsval" where
  "handleApiError e =
     (case response e of
        Some r \<Rightarrow>
          (let st = status r; d = data r in
           if st = 401 then
             McpError (JNum 401) (JStr ''Unauthorized: Invalid or missing API key'') d
           else if st = 403 then
             McpError (JNum 403) (JStr ''Forbidden: Access denied'') d
           else if st = 404 then
             McpError (JNum 404) (JStr ''Not Found: Resource not found'') d
           else if st = 429 then
             McpError (JNum 429) (JStr ''Rate Limit Exceeded: Too many requests'') d
           else if st = 500 then
             McpError (JNum 500) (JStr ''Internal Server Error: Webvizio API error'') d
           else
             McpError (JNum st)
               (js_or (get_prop d ''message'')
                  (js_or (get_prop d ''error'')
                     (JStr (''HTTP '' @ Number_toString st @ '': '' @ statusText r))))
               d)
      | None \<Rightarrow>
          if request e then
            McpError (JNum 0) (JStr ''Network Error: Unable to reach Webvizio API'')
              (JObj [(''originalError'', JStr (message e))])
          else
            McpError (JNum (- 1)) (JStr (''Request Error: '' @ message e))
              (JObj [(''originalError'', JStr (message e))]))"

subsection \<open>The configured instance and its response interceptor\<close>

definition instance_call :: "WebvizioConfig \<Rightarrow> http_method \<Rightarrow> string \<Rightarrow> jsval \<Rightarrow> http_call" where
  "instance_call cfg m u b =
     \<lparr>verb = m, baseURL = baseUrl cfg, url = JStr u,
      headers = [(''Authorization'', ''Bearer '' @ apiKey cfg),
                 (''Content-Type'', ''application/json''),
                 (''Accept'', ''application/json'')],
      body = b, responseType = Json\<rparr>"

text \<open>
  \<^verbatim>\<open>this.client.get(u)\<close> and \<^verbatim>\<open>this.client.post(u, b)\<close>: the response interceptor passes a
  response through and rejects with \<^verbatim>\<open>handleApiError(error)\<close> otherwise.
\<close>

definition client_request ::
  "WebvizioConfig \<Rightarrow> net \<Rightarrow> http_method \<Rightarrow> string \<Rightarrow> jsval \<Rightarrow> http_response promise" where
  "client_request cfg nw m u b =
     (let c = instance_call cfg m u b in
      (case api_reply nw c of
         Resolved r \<Rightarrow> Inr r
       | Rejected e \<Rightarrow> Inl (Thrown (handleApiError e)),
       [c]))"

text \<open>\<^verbatim>\<open>axios.get(u, { responseType: 'arraybuffer' })\<close> on the global instance.\<close>

definition global_call :: "jsval \<Rightarrow> http_call" where
  "global_call u =
     \<lparr>verb = GET, baseURL = [], url = u, headers = [], body = JUndefined,
      responseType = ArrayBuffer\<rparr>"

subsection \<open>Base64\<close>

text \<open>
  \<^verbatim>\<open>Buffer.from(bytes, 'binary').toString('base64')\<close> is the padded Base64 encoding of
  RFC 4648 over the standard alphabet; \<open>base64_decode\<close> is a decoder of that format.
\<close>

definition b64_alphabet :: string where
  "b64_alphabet = ''ABCDEFGHIJKLMNOPQRSTUVWXYZabcdefghijklmnopqrstuvwxyz0123456789+/''"

definition b64_char :: "nat \<Rightarrow> char" where
  "b64_char i = b64_alphabet ! i"

fun base64_encode :: "8 word list \<Rightarrow> string" where
  "base64_encode [] = []"
| "base64_encode [a] =
     [b64_char (unat a div 4), b64_char (unat a mod 4 * 16), CHR ''='', CHR ''='']"
| "base64_encode [a, b] =
     [b64_char (unat a div 4), b64_char (unat a mod 4 * 16 + unat b div 16),
      b64_char (unat b mod 16 * 4), CHR ''='']"
| "base64_encode (a # b # c # bs) =
     [b64_char (unat a div 4), b64_char (unat a mod 4 * 16 + unat b div 16),
      b64_char (unat b mod 16 * 4 + unat c div 64), b64_char (unat c mod 64)]
     @ base64_encode bs"

text \<open>
  The decoder reads a character by its code, not from the alphabet of the encoder: the
  letters \<^verbatim>\<open>A\<close> to \<^verbatim>\<open>Z\<close> are 0 to 25, \<^verbatim>\<open>a\<close> to \<^verbatim>\<open>z\<close> are 26 to 51, the digits are 52 to 61,
  \<^verbatim>\<open>+\<close> is 62 and \<^verbatim>\<open>/\<close> is 63.
\<close>

definition b64_index :: "char \<Rightarrow> nat option" where
  "b64_index c =
     (let n = (of_char c :: nat) in
      if 65 \<le> n \<and> n \<le> 90 then Some (n - 65)
      else if 97 \<le> n \<and> n \<le> 122 then Some (n - 71)
      else if 48 \<le> n \<and> n \<le> 57 then Some (n + 4)
      else if c = CHR ''+'' then Some 62
      else if c = CHR ''/'' then Some 63
      else None)"

fun base64_decode :: "string \<Rightarrow> 8 word list option" where
  "base64_decode [] = Some []"
| "base64_decode (c1 # c2 # c3 # c4 # cs) =
     (if c3 = CHR ''='' \<and> c4 = CHR ''='' \<and> cs = [] then
        (case (b64_index c1, b64_index c2) of
           (Some i1, Some i2) \<Rightarrow> Some [word_of_nat (i1 * 4 + i2 div 16)]
         | _ \<Rightarrow> None)
      else if c4 = CHR ''='' \<and> cs = [] then
        (case (b64_index c1, b64_index c2, b64_index c3) of
           (Some i1, Some i2, Some i3) \<Rightarrow>
             Some [word_of_nat (i1 * 4 + i2 div 16), word_of_nat (i2 mod 16 * 16 + i3 div 4)]
         | _ \<Rightarrow> None)
      else
        (case (b64_index c1, b64_index c2, b64_index c3, b64_index c4) of
           (Some i1, Some i2, Some i3, Some i4) \<Rightarrow>
             map_option
               (\<lambda>bs. word_of_nat (i1 * 4 + i2 div 16) # word_of_nat (i2 mod 16 * 16 + i3 div 4)
                     # word_of_nat (i3 mod 4 * 64 + i4) # bs)
               (base64_decode cs)
         | _ \<Rightarrow> None))"
| "base64_decode cs = None"

section \<open>Sequencing\<close>

text \<open>
  \<open>resolve\<close> and \<open>reject\<close> are \<^verbatim>\<open>return\<close> and \<^verbatim>\<open>throw\<close>; \<open>lift\<close> is a computation that
  dispatches nothing; \<open>await p f\<close> runs \<open>f\<close> on the value of \<open>p\<close>, or rejects as \<open>p\<close> does;
  \<open>try_catch p h\<close> is \<^verbatim>\<open>try { p } catch (error) { h }\<close>. The requests of both parts are
  recorded in order.
\<close>

definition resolve :: "'a \<Rightarrow> 'a promise" where
  "resolve v = (Inr v, [])"

definition reject :: "thrown \<Rightarrow> 'a promise" where
  "reject t = (Inl t, [])"

definition lift :: "thrown + 'a \<Rightarrow> 'a promise" where
  "lift x = (x, [])"

definition await :: "'a promise \<Rightarrow> ('a \<Rightarrow> 'b promise) \<Rightarrow> 'b promise" where
  "await p f =
     (case p of
        (Inl t, tr) \<Rightarrow> (Inl t, tr)
      | (Inr v, tr) \<Rightarrow> (case f v of (r, tr') \<Rightarrow> (r, tr @ tr')))"

definition try_catch :: "'a promise \<Rightarrow> (thrown \<Rightarrow> 'a promise) \<Rightarrow> 'a promise" where
  "try_catch p h =
     (case p of
        (Inl t, tr) \<Rightarrow> (case h t of (r, tr') \<Rightarrow> (r, tr @ tr'))
      | (Inr v, tr) \<Rightarrow> (Inr v, tr))"

text \<open>\<^verbatim>\<open>new Error(m)\<close> for a string \<open>m\<close>.\<close>

definition new_Error :: "string \<Rightarrow> thrown" where
  "new_Error m = ErrorInstance m []"

section \<open>\<^verbatim>\<open>WebvizioClient\<close>: the transport adapter\<close>

text \<open>
  Every method of the class is \<^verbatim>\<open>try { ... } catch (error) { console.error(...); throw error; }\<close>.
  A handler that only logs and rethrows leaves the outcome as it is and is not written out;
  the handler of \<^verbatim>\<open>getTasks\<close>, which does more, is.
\<close>

text \<open>
  In \<^verbatim>\<open>getProjects\<close> the message of the error is \<^verbatim>\<open>response.data.error || '...'\<close>, read from
  a falsy body and converted by the \<^verbatim>\<open>Error\<close> constructor.
\<close>

definition getProjects :: "WebvizioConfig \<Rightarrow> net \<Rightarrow> jsval promise" where
  "getProjects cfg nw =
     await (client_request cfg nw GET ''/projects'' JUndefined) (\<lambda>r.
       if \<not> truthy (data r) then
         await (lift (read_prop (data r) ''error'')) (\<lambda>v.
           await (lift (ToString (js_or v (JStr ''Failed to fetch projects'')))) (\<lambda>m.
             reject (new_Error m)))
       else resolve (data r))"

definition getCurrentProject :: "WebvizioConfig \<Rightarrow> net \<Rightarrow> jsval promise" where
  "getCurrentProject cfg nw =
     await (client_request cfg nw GET ''/current-project'' JUndefined) (\<lambda>r.
       if \<not> truthy (data r) then reject (new_Error ''Failed to fetch current project'')
       else resolve (data r))"

definition setProject :: "WebvizioConfig \<Rightarrow> net \<Rightarrow> jsval \<Rightarrow> jsval promise" where
  "setProject cfg nw req =
     await (client_request cfg nw POST ''/set-project'' req) (\<lambda>r.
       if \<not> truthy (data r) then reject (new_Error ''Failed to set project'')
       else resolve (data r))"

text \<open>
  The path \<^verbatim>\<open>`/task/${request.uuid}<suffix>`\<close>: the conversion of \<^verbatim>\<open>request.uuid\<close> can throw,
  inside the \<^verbatim>\<open>try\<close> block and before any request.
\<close>

definition task_url :: "jsval \<Rightarrow> string \<Rightarrow> thrown + string" where
  "task_url req suffix =
     (case ToString (get_prop req ''uuid'') of
        Inl t \<Rightarrow> Inl t
      | Inr s \<Rightarrow> Inr (''/task/'' @ s @ suffix))"

text \<open>
  The six methods that fetch \<^verbatim>\<open>/task/${request.uuid}<suffix>\<close> and return one field of the
  body share their shape:
  \<^verbatim>\<open>if (!response.data?.field) throw new Error(failure); return response.data.field;\<close>
\<close>

definition get_task_field ::
  "WebvizioConfig \<Rightarrow> net \<Rightarrow> jsval \<Rightarrow> string \<Rightarrow> string \<Rightarrow> string \<Rightarrow> jsval promise" where
  "get_task_field cfg nw req suffix field failure =
     await (lift (task_url req suffix)) (\<lambda>u.
       await (client_request cfg nw GET u JUndefined) (\<lambda>r.
         if \<not> truthy (get_prop (data r) field) then reject (new_Error failure)
         else resolve (get_prop (data r) field)))"

definition getTaskPrompt :: "WebvizioConfig \<Rightarrow> net \<Rightarrow> jsval \<Rightarrow> jsval promise" where
  "getTaskPrompt cfg nw req =
     get_task_field cfg nw req ''/prompt'' ''prompt'' ''Failed to get task prompt''"

definition getTaskDescription :: "WebvizioConfig \<Rightarrow> net \<Rightarrow> jsval \<Rightarrow> jsval promise" where
  "getTaskDescription cfg nw req =
     get_task_field cfg nw req [] ''description'' ''Failed to get task description''"

definition getTaskConsoleLogs :: "WebvizioConfig \<Rightarrow> net \<Rightarrow> jsval \<Rightarrow> jsval promise" where
  "getTaskConsoleLogs cfg nw req =
     get_task_field cfg nw req ''/console-logs'' ''prompt'' ''Failed to get console logs prompt''"

definition getTaskNetworkLogs :: "WebvizioConfig \<Rightarrow> net \<Rightarrow> jsval \<Rightarrow> jsval promise" where
  "getTaskNetworkLogs cfg nw req =
     get_task_field cfg nw req ''/network-logs'' ''prompt'' ''Failed to get network logs prompt''"

definition getTaskActionLogs :: "WebvizioConfig \<Rightarrow> net \<Rightarrow> jsval \<Rightarrow> jsval promise" where
  "getTaskActionLogs cfg nw req =
     get_task_field cfg nw req ''/action-logs'' ''prompt'' ''Failed to get action logs prompt''"

definition getTaskErrorLogs :: "WebvizioConfig \<Rightarrow> net \<Rightarrow> jsval \<Rightarrow> jsval promise" where
  "getTaskErrorLogs cfg nw req =
     get_task_field cfg nw req ''/error-logs'' ''prompt'' ''Failed to get error logs prompt''"

definition raw_get :: "net \<Rightarrow> jsval \<Rightarrow> (8 word list) promise" where
  "raw_get nw u =
     (let c = global_call u in
      (case raw_reply nw c of RawResolved bytes \<Rightarrow> Inr bytes | RawRejected t \<Rightarrow> Inl t, [c]))"

definition getTaskScreenshot :: "WebvizioConfig \<Rightarrow> net \<Rightarrow> jsval \<Rightarrow> jsval promise" where
  "getTaskScreenshot cfg nw req =
     await (lift (task_url req ''/screenshot'')) (\<lambda>u.
       await (client_request cfg nw GET u JUndefined) (\<lambda>r.
         if \<not> truthy (get_prop (data r) ''screenshot'') then
           reject (new_Error ''Failed to get task screenshot'')
         else
           await (raw_get nw (get_prop (data r) ''screenshot'')) (\<lambda>bytes.
             resolve (JStr (base64_encode bytes)))))"

definition closeTask :: "WebvizioConfig \<Rightarrow> net \<Rightarrow> jsval \<Rightarrow> jsval promise" where
  "closeTask cfg nw req =
     await (lift (task_url req ''/close'')) (\<lambda>u.
       await (client_request cfg nw POST u JUndefined) (\<lambda>r.
         lift (read_prop (data r) ''success'')))"

definition getTasks :: "WebvizioConfig \<Rightarrow> net \<Rightarrow> jsval promise" where
  "getTasks cfg nw =
     try_catch
       (await (client_request cfg nw GET ''/tasks'' JUndefined) (\<lambda>r.
          if \<not> truthy (data r) then reject (new_Error ''Failed to fetch tasks'')
          else resolve (data r)))
       (\<lambda>error.
          if isMcpError error
             \<and> get_prop (thrown_prop error ''details'') ''message'' = JStr ''Project not found''
          then resolve (JBool False)
          else reject error)"

section \<open>\<^verbatim>\<open>WebvizioMcpServer\<close>: the tool handlers\<close>

text \<open>
  A tool result: its content items and whether it is marked as an error. The source sets
  \<^verbatim>\<open>isError: true\<close> in \<^verbatim>\<open>handleError\<close> only; a result without the field is not an error.
\<close>

datatype content_item =
    TextContent string
  | ImageContent jsval string

record tool_result =
  content :: "content_item list"
  isError :: bool

definition text_result :: "string \<Rightarrow> tool_result" where
  "text_result s = \<lparr>content = [TextContent s], isError = False\<rparr>"

text \<open>
  \<^verbatim>\<open>handleError\<close> builds its text with a template literal, which converts \<^verbatim>\<open>error.code\<close> and
  then \<^verbatim>\<open>error.message\<close>: where a conversion throws, \<^verbatim>\<open>handleError\<close> throws (\<open>Inl\<close>).
\<close>

definition handleError :: "thrown \<Rightarrow> thrown + tool_result" where
  "handleError error =
     (if isMcpError error then
        (case ToString (thrown_prop error ''code'') of
           Inl t \<Rightarrow> Inl t
         | Inr c \<Rightarrow>
             (case ToString (thrown_prop error ''message'') of
                Inl t \<Rightarrow> Inl t
              | Inr m \<Rightarrow>
                  Inr \<lparr>content =
                         [TextContent
                            (''Error '' @ c @ '': '' @ m
                             @ (if truthy (thrown_prop error ''details'')
                                then [newline] @ ''Details: ''
                                     @ JSON_text (thrown_prop error ''details'')
                                else []))],
                       isError = True\<rparr>))
      else
        Inr \<lparr>content =
               [TextContent
                  (''Error: '' @ (case error of
                                   ErrorInstance msg props \<Rightarrow> msg
                                 | Thrown v \<Rightarrow> ''Unknown error occurred''))],
             isError = True\<rparr>)"

text \<open>
  Every handler is \<^verbatim>\<open>try { ... } catch (error) { return this.handleError(error, name); }\<close>:
  what \<^verbatim>\<open>handleError\<close> throws is thrown by the \<^verbatim>\<open>catch\<close> block, and the handler rejects.
  A handler takes the adapter method it calls as its first argument, so that it can be stated
  for any adapter; \<open>tool_callback\<close> below passes the methods of \<^verbatim>\<open>WebvizioClient\<close>.
\<close>

definition caught :: "tool_result promise \<Rightarrow> tool_result promise" where
  "caught p = try_catch p (\<lambda>error. lift (handleError error))"

text \<open>\<^verbatim>\<open>args.uuid\<close>, read inside the \<^verbatim>\<open>try\<close> block.\<close>

definition args_uuid :: "jsval \<Rightarrow> jsval promise" where
  "args_uuid args = lift (read_prop args ''uuid'')"

definition two_newlines :: string where
  "two_newlines = [newline, newline]"

definition get_projects_handler :: "jsval promise \<Rightarrow> tool_result promise" where
  "get_projects_handler getProjects_m =
     caught (await getProjects_m (\<lambda>projects.
       await (lift (read_prop projects ''length'')) (\<lambda>n.
         await (lift (ToString n)) (\<lambda>count.
           resolve (text_result (''Found '' @ count @ '' projects:'' @ two_newlines
                                 @ JSON_text projects))))))"

definition get_current_project_handler :: "jsval promise \<Rightarrow> tool_result promise" where
  "get_current_project_handler getCurrentProject_m =
     caught (await getCurrentProject_m (\<lambda>currentProject.
       resolve (text_result (''Current project details:'' @ two_newlines
                             @ JSON_text currentProject))))"

text \<open>
  In \<^verbatim>\<open>set_project\<close> the text is built after the adapter has resolved; only the branch taken
  converts \<^verbatim>\<open>args.uuid\<close>, and both branches convert the same value.
\<close>

definition set_project_handler :: "(jsval \<Rightarrow> jsval promise) \<Rightarrow> jsval \<Rightarrow> tool_result promise" where
  "set_project_handler setProject_m args =
     caught (await (args_uuid args) (\<lambda>uuid.
       if \<not> truthy uuid then reject (new_Error ''project uuid is required'')
       else
         await (setProject_m (JObj [(''uuid'', uuid)])) (\<lambda>success.
           await (lift (ToString uuid)) (\<lambda>ident.
             resolve (text_result
               (if truthy success
                then ''Successfully set project '' @ ident @ '' as current''
                else ''Failed to set project '' @ ident @ '' as current''))))))"

definition no_project_hint :: string where
  "no_project_hint =
     ''No project selected. You need to get the list of projects via get_projects tool ''
     @ ''select the uuid of the required project and set it using set_project tool''"

definition get_tasks_handler :: "jsval promise \<Rightarrow> tool_result promise" where
  "get_tasks_handler getTasks_m =
     caught (await getTasks_m (\<lambda>tasks.
       if \<not> truthy tasks \<or> is_boolean tasks then resolve (text_result no_project_hint)
       else
         await (lift (ToString (get_prop tasks ''length''))) (\<lambda>count.
           resolve (text_result (''Found '' @ count @ '' tasks:'' @ two_newlines
                                 @ JSON_text tasks)))))"

definition get_task_description_handler ::
  "(jsval \<Rightarrow> jsval promise) \<Rightarrow> jsval \<Rightarrow> tool_result promise" where
  "get_task_description_handler getTaskDescription_m args =
     caught (await (args_uuid args) (\<lambda>uuid.
       await (getTaskDescription_m (JObj [(''uuid'', uuid)])) (\<lambda>description.
         await (lift (ToString description)) (\<lambda>text.
           resolve (text_result (''Task description:'' @ two_newlines @ text))))))"

definition get_task_prompt_handler ::
  "(jsval \<Rightarrow> jsval promise) \<Rightarrow> jsval \<Rightarrow> tool_result promise" where
  "get_task_prompt_handler getTaskPrompt_m args =
     caught (await (args_uuid args) (\<lambda>uuid.
       await (getTaskPrompt_m (JObj [(''uuid'', uuid)])) (\<lambda>prompt.
         await (lift (ToString prompt)) (\<lambda>text.
           resolve (text_result (''Task prompt:'' @ two_newlines @ text))))))"

definition get_task_console_logs_handler ::
  "(jsval \<Rightarrow> jsval promise) \<Rightarrow> jsval \<Rightarrow> tool_result promise" where
  "get_task_console_logs_handler getTaskConsoleLogs_m args =
     caught (await (args_uuid args) (\<lambda>uuid.
       await (getTaskConsoleLogs_m (JObj [(''uuid'', uuid)])) (\<lambda>consoleLogs.
         if \<not> truthy consoleLogs then resolve (text_result ''No console logs found'')
         else
           await (lift (ToString consoleLogs)) (\<lambda>text.
             resolve (text_result (''Task console logs:'' @ two_newlines @ text))))))"

definition get_task_network_logs_handler ::
  "(jsval \<Rightarrow> jsval promise) \<Rightarrow> jsval \<Rightarrow> tool_result promise" where
  "get_task_network_logs_handler getTaskNetworkLogs_m args =
     caught (await (args_uuid args) (\<lambda>uuid.
       await (getTaskNetworkLogs_m (JObj [(''uuid'', uuid)])) (\<lambda>networkLogs.
         if \<not> truthy networkLogs then resolve (text_result ''No network logs found'')
         else
           await (lift (ToString networkLogs)) (\<lambda>text.
             resolve (text_result (''Task network logs:'' @ two_newlines @ text))))))"

definition get_task_action_logs_handler ::
  "(jsval \<Rightarrow> jsval promise) \<Rightarrow> jsval \<Rightarrow> tool_result promise" where
  "get_task_action_logs_handler getTaskActionLogs_m args =
     caught (await (args_uuid args) (\<lambda>uuid.
       await (getTaskActionLogs_m (JObj [(''uuid'', uuid)])) (\<lambda>actionLogs.
         if \<not> truthy actionLogs then resolve (text_result ''No action logs found'')
         else
           await (lift (ToString actionLogs)) (\<lambda>text.
             resolve (text_result (''Task action logs:'' @ two_newlines @ text))))))"

text \<open>
  The image item's \<^verbatim>\<open>data\<close> is the adapter's result as it is; \<^verbatim>\<open>getTaskScreenshot\<close> returns
  a string.
\<close>

definition get_task_screenshot_handler ::
  "(jsval \<Rightarrow> jsval promise) \<Rightarrow> jsval \<Rightarrow> tool_result promise" where
  "get_task_screenshot_handler getTaskScreenshot_m args =
     caught (await (args_uuid args) (\<lambda>uuid.
       await (getTaskScreenshot_m (JObj [(''uuid'', uuid)])) (\<lambda>screenshot.
         resolve \<lparr>content = [ImageContent screenshot ''image/png''],
                  isError = False\<rparr>)))"

definition close_task_handler ::
  "(jsval \<Rightarrow> jsval promise) \<Rightarrow> jsval \<Rightarrow> tool_result promise" where
  "close_task_handler closeTask_m args =
     caught (await (args_uuid args) (\<lambda>uuid.
       await (closeTask_m (JObj [(''uuid'', uuid)])) (\<lambda>result.
         resolve (text_result ''Task closed successfully''))))"

subsection \<open>The tool catalogue\<close>

datatype tool =
    get_projects
  | get_current_project
  | set_project
  | get_tasks
  | get_task_description
  | get_task_prompt
  | get_task_console_logs
  | get_task_network_logs
  | get_task_action_logs
  | get_task_screenshot
  | close_task

text \<open>
  The handler registered under each name, on an adapter method. The three tools without
  arguments call a method without arguments: there the method is applied to \<^verbatim>\<open>undefined\<close>.
\<close>

fun tool_handler :: "tool \<Rightarrow> (jsval \<Rightarrow> jsval promise) \<Rightarrow> jsval \<Rightarrow> tool_result promise" where
  "tool_handler get_projects m args = get_projects_handler (m JUndefined)"
| "tool_handler get_current_project m args = get_current_project_handler (m JUndefined)"
| "tool_handler set_project m args = set_project_handler m args"
| "tool_handler get_tasks m args = get_tasks_handler (m JUndefined)"
| "tool_handler get_task_description m args = get_task_description_handler m args"
| "tool_handler get_task_prompt m args = get_task_prompt_handler m args"
| "tool_handler get_task_console_logs m args = get_task_console_logs_handler m args"
| "tool_handler get_task_network_logs m args = get_task_network_logs_handler m args"
| "tool_handler get_task_action_logs m args = get_task_action_logs_handler m args"
| "tool_handler get_task_screenshot m args = get_task_screenshot_handler m args"
| "tool_handler close_task m args = close_task_handler m args"

text \<open>The method of \<^verbatim>\<open>this.webvizioClient\<close> that each handler calls.\<close>

fun client_method :: "WebvizioConfig \<Rightarrow> net \<Rightarrow> tool \<Rightarrow> jsval \<Rightarrow> jsval promise" where
  "client_method cfg nw get_projects = (\<lambda>req. getProjects cfg nw)"
| "client_method cfg nw get_current_project = (\<lambda>req. getCurrentProject cfg nw)"
| "client_method cfg nw set_project = setProject cfg nw"
| "client_method cfg nw get_tasks = (\<lambda>req. getTasks cfg nw)"
| "client_method cfg nw get_task_description = getTaskDescription cfg nw"
| "client_method cfg nw get_task_prompt = getTaskPrompt cfg nw"
| "client_method cfg nw get_task_console_logs = getTaskConsoleLogs cfg nw"
| "client_method cfg nw get_task_network_logs = getTaskNetworkLogs cfg nw"
| "client_method cfg nw get_task_action_logs = getTaskActionLogs cfg nw"
| "client_method cfg nw get_task_screenshot = getTaskScreenshot cfg nw"
| "client_method cfg nw close_task = closeTask cfg nw"

text \<open>The callback of each tool on the adapter the server constructs.\<close>

definition tool_callback :: "WebvizioConfig \<Rightarrow> net \<Rightarrow> tool \<Rightarrow> jsval \<Rightarrow> tool_result promise" where
  "tool_callback cfg nw t args = tool_handler t (client_method cfg nw t) args"

text \<open>
  The request object a handler passes to its method, and the request to the remote service
  that the method dispatches first.
\<close>

definition request_of :: "tool \<Rightarrow> jsval \<Rightarrow> jsval" where
  "request_of t args =
     (if t = get_projects \<or> t = get_current_project \<or> t = get_tasks then JUndefined
      else JObj [(''uuid'', get_prop args ''uuid'')])"

text \<open>
  \<open>task_call cfg m req suffix\<close> is the request of a task method, where its path can be
  built; \<open>api_call cfg t req\<close> is the request to the remote service that the method of tool
  \<open>t\<close> dispatches first (\<open>Inr\<close>), or what building its path throws (\<open>Inl\<close>).
\<close>

definition task_call ::
  "WebvizioConfig \<Rightarrow> http_method \<Rightarrow> jsval \<Rightarrow> string \<Rightarrow> thrown + http_call" where
  "task_call cfg m req suffix =
     (case task_url req suffix of
        Inl t \<Rightarrow> Inl t
      | Inr u \<Rightarrow> Inr (instance_call cfg m u JUndefined))"

fun api_call :: "WebvizioConfig \<Rightarrow> tool \<Rightarrow> jsval \<Rightarrow> thrown + http_call" where
  "api_call cfg get_projects req = Inr (instance_call cfg GET ''/projects'' JUndefined)"
| "api_call cfg get_current_project req =
     Inr (instance_call cfg GET ''/current-project'' JUndefined)"
| "api_call cfg set_project req = Inr (instance_call cfg POST ''/set-project'' req)"
| "api_call cfg get_tasks req = Inr (instance_call cfg GET ''/tasks'' JUndefined)"
| "api_call cfg get_task_description req = task_call cfg GET req []"
| "api_call cfg get_task_prompt req = task_call cfg GET req ''/prompt''"
| "api_call cfg get_task_console_logs req = task_call cfg GET req ''/console-logs''"
| "api_call cfg get_task_network_logs req = task_call cfg GET req ''/network-logs''"
| "api_call cfg get_task_action_logs req = task_call cfg GET req ''/action-logs''"
| "api_call cfg get_task_screenshot req = task_call cfg GET req ''/screenshot''"
| "api_call cfg close_task req = task_call cfg POST req ''/close''"

text \<open>
  Eight tools declare \<^verbatim>\<open>inputSchema: { uuid: z.string() }\<close>. The protocol library parses the
  arguments against the schema before it runs the callback: \<^verbatim>\<open>uuid\<close> must be a string (an
  empty one is a string), other keys are dropped, and arguments that do not parse are
  answered by the library without running the callback.
\<close>

fun has_inputSchema :: "tool \<Rightarrow> bool" where
  "has_inputSchema get_projects = False"
| "has_inputSchema get_current_project = False"
| "has_inputSchema get_tasks = False"
| "has_inputSchema t = True"

definition parse_uuid_schema :: "jsval \<Rightarrow> jsval option" where
  "parse_uuid_schema args =
     (case get_prop args ''uuid'' of
        JStr s \<Rightarrow> (case args of JObj kvs \<Rightarrow> Some (JObj [(''uuid'', JStr s)]) | _ \<Rightarrow> None)
      | _ \<Rightarrow> None)"

datatype dispatch = InvalidArguments | Ran "tool_result promise"

definition call_tool :: "WebvizioConfig \<Rightarrow> net \<Rightarrow> tool \<Rightarrow> jsval \<Rightarrow> dispatch" where
  "call_tool cfg nw t args =
     (if has_inputSchema t then
        (case parse_uuid_schema args of
           None \<Rightarrow> InvalidArguments
         | Some parsed \<Rightarrow> Ran (tool_callback cfg nw t parsed))
      else Ran (tool_callback cfg nw t args))"

section \<open>Notions used in the statements\<close>

text \<open>
  The test of the \<^verbatim>\<open>catch\<close> block of \<^verbatim>\<open>getTasks\<close> on the error the interceptor builds from
  the library's error \<open>e\<close>: \<^verbatim>\<open>error.details?.message === 'Project not found'\<close>.
\<close>

definition project_not_found :: "AxiosError \<Rightarrow> bool" where
  "project_not_found e =
     (get_prop (get_prop (handleApiError e) ''details'') ''message'' = JStr ''Project not found'')"

text \<open>The three log tools, their fixed texts and the failure messages of their methods.\<close>

definition is_log_tool :: "tool \<Rightarrow> bool" where
  "is_log_tool t =
     (t = get_task_console_logs \<or> t = get_task_network_logs \<or> t = get_task_action_logs)"

definition no_logs_text :: "tool \<Rightarrow> string" where
  "no_logs_text t =
     (if t = get_task_console_logs then ''No console logs found''
      else if t = get_task_network_logs then ''No network logs found''
      else ''No action logs found'')"

definition log_failure :: "tool \<Rightarrow> string" where
  "log_failure t =
     (if t = get_task_console_logs then ''Failed to get console logs prompt''
      else if t = get_task_network_logs then ''Failed to get network logs prompt''
      else ''Failed to get action logs prompt'')"

subsection \<open>Concrete configurations, errors and networks\<close>

definition example_config :: WebvizioConfig where
  "example_config = \<lparr>apiKey = ''key'', baseUrl = ''https://app.webvizio.com/api/mcp/v1/''\<rparr>"

definition error_401 :: AxiosError where
  "error_401 =
     \<lparr>response = Some \<lparr>status = 401, statusText = ''Unauthorized'',
                        data = JObj [(''message'', JStr ''Project not found'')]\<rparr>,
      request = True, message = ''Request failed with status code 401''\<rparr>"

definition error_418 :: AxiosError where
  "error_418 =
     \<lparr>response = Some \<lparr>status = 418, statusText = ''I am a teapot'',
                        data = JObj [(''error'', JStr ''short and stout'')]\<rparr>,
      request = True, message = ''Request failed with status code 418''\<rparr>"

definition error_503 :: AxiosError where
  "error_503 =
     \<lparr>response = Some \<lparr>status = 503, statusText = ''Service Unavailable'', data = JStr []\<rparr>,
      request = True, message = ''Request failed with status code 503''\<rparr>"

definition error_timeout :: AxiosError where
  "error_timeout = \<lparr>response = None, request = True, message = ''timeout of 30000ms exceeded''\<rparr>"

definition error_setup :: AxiosError where
  "error_setup = \<lparr>response = None, request = False, message = ''Invalid URL''\<rparr>"

definition net_rejecting :: "AxiosError \<Rightarrow> net" where
  "net_rejecting e = \<lparr>api_reply = (\<lambda>c. Rejected e), raw_reply = (\<lambda>c. RawResolved [])\<rparr>"

definition error_404 :: AxiosError where
  "error_404 =
     \<lparr>response = Some \<lparr>status = 404, statusText = ''Not Found'',
                        data = JObj [(''message'', JStr ''Project not found'')]\<rparr>,
      request = True, message = ''Request failed with status code 404''\<rparr>"

definition net_answering :: "jsval \<Rightarrow> 8 word list \<Rightarrow> net" where
  "net_answering d bytes =
     \<lparr>api_reply = (\<lambda>c. Resolved \<lparr>status = 200, statusText = ''OK'', data = d\<rparr>),
      raw_reply = (\<lambda>c. RawResolved bytes)\<rparr>"

definition png_magic :: "8 word list" where
  "png_magic = [0x89, 0x50, 0x4E, 0x47]"

text \<open>
  A 400 whose body is \<^verbatim>\<open>{"message": {"toString": 1}}\<close>: the message of the normalized error
  is then an object that cannot be converted to a string.
\<close>

definition error_400 :: AxiosError where
  "error_400 =
     \<lparr>response = Some \<lparr>status = 400, statusText = ''Bad Request'',
                        data = JObj [(''message'', JObj [(''toString'', JNum 1)])]\<rparr>,
      request = True, message = ''Request failed with status code 400''\<rparr>"

text \<open>
  The error of the HTTP library for a response of status 404, as the global instance rejects
  with it, and a network where the service answers with a screenshot URL and the host of the
  image answers 404.
\<close>

definition axios_404 :: thrown where
  "axios_404 =
     ErrorInstance ''Request failed with status code 404''
       [(''code'', JStr ''ERR_BAD_REQUEST''), (''status'', JNum 404)]"

definition net_image_404 :: net where
  "net_image_404 =
     \<lparr>api_reply = (\<lambda>c. Resolved \<lparr>status = 200, statusText = ''OK'',
         data = JObj [(''screenshot'', JStr ''https://cdn.example/s.png'')]\<rparr>),
      raw_reply = (\<lambda>c. RawRejected axios_404)\<rparr>"

section \<open>Base64 decoding inverts encoding\<close>

text \<open>The alphabet of the encoder against the codes the decoder reads, character by character.\<close>

lemma b64_alphabet_checked:
  "list_all (\<lambda>c. b64_index c \<noteq> None \<and> c \<noteq> CHR ''='') b64_alphabet
   \<and> map (\<lambda>c. the (b64_index c)) b64_alphabet = [0..<64]"
  by (simp add: b64_alphabet_def b64_index_def upt_rec)

lemma b64_alphabet_length: "length b64_alphabet = 64"
  by (simp add: b64_alphabet_def)

lemma b64_index_char_not_pad:
  assumes "i < 64"
  shows "b64_index (b64_char i) = Some i \<and> b64_char i \<noteq> CHR ''=''"
proof -
  from b64_alphabet_checked
  have every: "list_all (\<lambda>c. b64_index c \<noteq> None \<and> c \<noteq> CHR ''='') b64_alphabet"
    and positions: "map (\<lambda>c. the (b64_index c)) b64_alphabet = [0..<64]"
    by simp_all
  from every assms have known: "b64_index (b64_char i) \<noteq> None \<and> b64_char i \<noteq> CHR ''=''"
    by (simp add: list_all_length b64_char_def b64_alphabet_length)
  from positions have "map (\<lambda>c. the (b64_index c)) b64_alphabet ! i = [0..<64] ! i"
    by simp
  with assms have "the (b64_index (b64_char i)) = i"
    by (simp add: b64_char_def b64_alphabet_length del: upt_Suc)
  with known show ?thesis by auto
qed

lemma b64_index_char: "i < 64 \<Longrightarrow> b64_index (b64_char i) = Some i"
  by (simp add: b64_index_char_not_pad)

lemma b64_char_not_pad: "i < 64 \<Longrightarrow> b64_char i \<noteq> CHR ''=''"
  by (simp add: b64_index_char_not_pad)

lemma byte_lt: "unat (a :: 8 word) < 256"
  using unsigned_less [of a, where ?'a = nat] by simp

lemma dm_div: "y < k \<Longrightarrow> (x * k + y) div k = (x::nat)"
  by simp

lemma dm_mod: "y < k \<Longrightarrow> (x * k + y) mod k = (y::nat)"
  by simp

lemma sextet_bounds:
  fixes a b c :: nat
  assumes "a < 256" "b < 256" "c < 256"
  shows "a div 4 < 64" "a mod 4 * 16 < 64" "a mod 4 * 16 + b div 16 < 64"
    "b mod 16 * 4 < 64" "b mod 16 * 4 + c div 64 < 64" "c mod 64 < 64"
proof -
  have a4: "a mod 4 < 4" and b16: "b mod 16 < 16" by simp_all
  have bd: "b div 16 < 16" and cd: "c div 64 < 4" using assms by simp_all
  show "a div 4 < 64" using assms by simp
  show "a mod 4 * 16 < 64" using a4 by linarith
  show "a mod 4 * 16 + b div 16 < 64" using a4 bd by linarith
  show "b mod 16 * 4 < 64" using b16 by linarith
  show "b mod 16 * 4 + c div 64 < 64" using b16 cd by linarith
  show "c mod 64 < 64" by simp
qed

lemma regroup:
  fixes a b c :: nat
  assumes "a < 256" "b < 256" "c < 256"
  shows "a div 4 * 4 + (a mod 4 * 16) div 16 = a"
    "a div 4 * 4 + (a mod 4 * 16 + b div 16) div 16 = a"
    "(a mod 4 * 16 + b div 16) mod 16 * 16 + (b mod 16 * 4) div 4 = b"
    "(a mod 4 * 16 + b div 16) mod 16 * 16 + (b mod 16 * 4 + c div 64) div 4 = b"
    "(b mod 16 * 4 + c div 64) mod 4 * 64 + c mod 64 = c"
proof -
  have bd: "b div 16 < 16" and cd: "c div 64 < 4" using assms by simp_all
  show "a div 4 * 4 + (a mod 4 * 16) div 16 = a" by simp
  show "a div 4 * 4 + (a mod 4 * 16 + b div 16) div 16 = a"
    by (simp only: dm_div [OF bd] div_mult_mod_eq)
  show "(a mod 4 * 16 + b div 16) mod 16 * 16 + (b mod 16 * 4) div 4 = b"
    by (simp only: dm_mod [OF bd] nonzero_mult_div_cancel_right) simp
  show "(a mod 4 * 16 + b div 16) mod 16 * 16 + (b mod 16 * 4 + c div 64) div 4 = b"
    by (simp only: dm_mod [OF bd] dm_div [OF cd] div_mult_mod_eq)
  show "(b mod 16 * 4 + c div 64) mod 4 * 64 + c mod 64 = c"
    by (simp only: dm_mod [OF cd] div_mult_mod_eq)
qed


lemma base64_decode_encode: "base64_decode (base64_encode bs) = Some bs"
proof (induction bs rule: base64_encode.induct)
  case 1
  show ?case by simp
next
  case (2 a)
  show ?case
    using sextet_bounds [of "unat a" "unat a" "unat a", OF byte_lt byte_lt byte_lt]
      regroup [of "unat a" "unat a" "unat a", OF byte_lt byte_lt byte_lt]
    by (simp add: b64_index_char)
next
  case (3 a b)
  show ?case
    using sextet_bounds [of "unat a" "unat b" "unat b", OF byte_lt byte_lt byte_lt]
      regroup [of "unat a" "unat b" "unat b", OF byte_lt byte_lt byte_lt]
    by (simp add: b64_index_char b64_char_not_pad)
next
  case (4 a b c bs)
  show ?case
    using sextet_bounds [of "unat a" "unat b" "unat c", OF byte_lt byte_lt byte_lt]
      regroup [of "unat a" "unat b" "unat c", OF byte_lt byte_lt byte_lt] 4
    by (simp add: b64_index_char b64_char_not_pad)
qed

section \<open>Numbers and strings\<close>

lemma sint_length: "n < 2 ^ 32 \<Longrightarrow> sint (word_of_nat n :: js_int) = int n"
proof -
  assume "n < 2 ^ 32"
  then have "int n < 2 ^ 32" by (metis of_nat_less_numeral_power_cancel_iff)
  then have "- (2 ^ 53) \<le> int n" "int n < 2 ^ 53" by simp_all
  then show ?thesis
    by (simp add: signed_of_nat signed_take_bit_int_eq_self)
qed

lemma Number_toString_length:
  "n < 2 ^ 32 \<Longrightarrow> Number_toString (word_of_nat n) = show_nat n"
  by (simp add: Number_toString_def sint_length show_int_def)

lemma Number_toString_401: "Number_toString 401 = ''401''"
  by (simp add: Number_toString_def show_int_def show_nat.simps digit_char_def)

lemma ToString_JSON_stringify: "ToString (JSON_stringify v) = Inr (JSON_text v)"
  by (simp add: JSON_stringify_def JSON_text_def split: option.splits)

section \<open>Sequencing laws\<close>

lemma await_Inl [simp]: "await (Inl t, tr) f = (Inl t, tr)"
  by (simp add: await_def)

lemma await_Inr [simp]: "await (Inr v, tr) f = (fst (f v), tr @ snd (f v))"
  by (simp add: await_def split: prod.splits)

lemma await_resolve [simp]: "await (resolve v) f = f v"
  by (simp add: resolve_def)

lemma await_reject [simp]: "await (reject t) f = reject t"
  by (simp add: reject_def)

lemma lift_Inr [simp]: "lift (Inr v) = resolve v"
  by (simp add: lift_def resolve_def)

lemma lift_Inl [simp]: "lift (Inl t) = reject t"
  by (simp add: lift_def reject_def)

lemma try_catch_Inl [simp]: "try_catch (Inl t, tr) h = (fst (h t), tr @ snd (h t))"
  by (simp add: try_catch_def split: prod.splits)

lemma try_catch_Inr [simp]: "try_catch (Inr v, tr) h = (Inr v, tr)"
  by (simp add: try_catch_def)

lemma caught_Inl [simp]: "caught (Inl t, tr) = (handleError t, tr)"
  by (simp add: caught_def lift_def)

lemma caught_Inr [simp]: "caught (Inr r, tr) = (Inr r, tr)"
  by (simp add: caught_def)

lemma caught_resolve [simp]: "caught (resolve r) = resolve r"
  by (simp add: resolve_def)

lemma caught_reject [simp]: "caught (reject t) = lift (handleError t)"
  by (simp add: reject_def lift_def)

section \<open>\<^verbatim>\<open>handleError\<close>: when it returns and when it throws\<close>

lemma handleError_other:
  "\<not> isMcpError err \<Longrightarrow>
   handleError err =
     Inr \<lparr>content =
            [TextContent
               (''Error: '' @ (case err of
                                ErrorInstance msg props \<Rightarrow> msg
                              | Thrown v \<Rightarrow> ''Unknown error occurred''))],
          isError = True\<rparr>"
  by (simp add: handleError_def)

lemma handleError_McpError:
  assumes "isMcpError err"
    and "ToString (thrown_prop err ''code'') = Inr c"
    and "ToString (thrown_prop err ''message'') = Inr m"
  shows "handleError err =
     Inr \<lparr>content =
            [TextContent
               (''Error '' @ c @ '': '' @ m
                @ (if truthy (thrown_prop err ''details'')
                   then [newline] @ ''Details: '' @ JSON_text (thrown_prop err ''details'')
                   else []))],
          isError = True\<rparr>"
  using assms by (simp add: handleError_def)

lemma handleError_throws_iff:
  "handleError err = Inl x \<longleftrightarrow>
     isMcpError err
     \<and> (ToString (thrown_prop err ''code'') = Inl x
        \<or> (\<exists>c. ToString (thrown_prop err ''code'') = Inr c)
           \<and> ToString (thrown_prop err ''message'') = Inl x)"
  by (auto simp: handleError_def split: sum.splits)

lemma handleError_isError: "handleError err = Inr r \<Longrightarrow> isError r"
  by (auto simp: handleError_def split: sum.splits if_splits)

lemma handleError_neq_text_result [simp]: "handleError t \<noteq> Inr (text_result s)"
proof
  assume "handleError t = Inr (text_result s)"
  then have "isError (text_result s)" by (rule handleError_isError)
  then show False by (simp add: text_result_def)
qed

lemma ToString_throws_primitive: "ToString v = Inl x \<Longrightarrow> x = TypeError_primitive"
proof (induction v arbitrary: x rule: ToString.induct)
  case (6 xs)
  have "first_thrown rs = Inl x \<Longrightarrow> \<exists>r \<in> set rs. r = Inl x" for rs :: "(thrown + string) list"
  proof (induction rs rule: first_thrown.induct)
    case (3 v rs)
    then show ?case by (auto split: sum.splits)
  qed simp_all
  with 6 show ?case by (fastforce split: sum.splits if_splits)
qed (auto split: if_splits)

section \<open>The adapter: what a rejected or a resolved request becomes\<close>

lemma get_prop_McpError [simp]:
  "get_prop (McpError c m d) ''code'' = c"
  "get_prop (McpError c m d) ''message'' = m"
  "get_prop (McpError c m d) ''details'' = d"
  by (simp_all add: McpError_def)

lemma McpError_shape [simp]:
  "truthy (McpError c m d)" "typeof_object (McpError c m d)"
  "has_prop (McpError c m d) ''code''" "has_prop (McpError c m d) ''message''"
  by (simp_all add: McpError_def)

lemma handleApiError_is_McpError:
  "\<exists>c m d. handleApiError e = McpError (JNum c) m d"
  by (auto simp: handleApiError_def Let_def split: option.splits)

lemma handleApiError_shape [simp]:
  "truthy (handleApiError e)" "typeof_object (handleApiError e)"
  "has_prop (handleApiError e) ''code''" "has_prop (handleApiError e) ''message''"
  using handleApiError_is_McpError [of e] by auto

lemma handleApiError_response:
  assumes "response e = Some r"
  shows "get_prop (handleApiError e) ''code'' = JNum (status r)"
    and "get_prop (handleApiError e) ''details'' = data r"
    and "get_prop (handleApiError e) ''message'' =
        (if status r = 401 then JStr ''Unauthorized: Invalid or missing API key''
         else if status r = 403 then JStr ''Forbidden: Access denied''
         else if status r = 404 then JStr ''Not Found: Resource not found''
         else if status r = 429 then JStr ''Rate Limit Exceeded: Too many requests''
         else if status r = 500 then JStr ''Internal Server Error: Webvizio API error''
         else if truthy (get_prop (data r) ''message'') then get_prop (data r) ''message''
         else if truthy (get_prop (data r) ''error'') then get_prop (data r) ''error''
         else JStr (''HTTP '' @ Number_toString (status r) @ '': '' @ statusText r))"
  using assms by (simp_all add: handleApiError_def js_or_def Let_def)

lemma handleApiError_no_response:
  assumes "response e = None"
  shows "get_prop (handleApiError e) ''code'' = JNum (if request e then 0 else - 1)"
    and "get_prop (handleApiError e) ''details'' = JObj [(''originalError'', JStr (message e))]"
    and "get_prop (handleApiError e) ''message'' =
           (if request e then JStr ''Network Error: Unable to reach Webvizio API''
            else JStr (''Request Error: '' @ message e))"
  using assms by (simp_all add: handleApiError_def)

lemma handleApiError_details:
  "get_prop (handleApiError e) ''details'' =
     (case response e of
        Some r \<Rightarrow> data r
      | None \<Rightarrow> JObj [(''originalError'', JStr (message e))])"
  by (simp add: handleApiError_response handleApiError_no_response split: option.splits)

lemma handleApiError_code:
  "get_prop (handleApiError e) ''code'' =
     (case response e of
        Some r \<Rightarrow> JNum (status r)
      | None \<Rightarrow> JNum (if request e then 0 else - 1))"
  by (simp add: handleApiError_response handleApiError_no_response split: option.splits)

lemma client_request_rejected:
  "api_reply nw (instance_call cfg m u b) = Rejected e \<Longrightarrow>
   client_request cfg nw m u b = (Inl (Thrown (handleApiError e)), [instance_call cfg m u b])"
  by (simp add: client_request_def)

lemma client_request_resolved:
  "api_reply nw (instance_call cfg m u b) = Resolved r \<Longrightarrow>
   client_request cfg nw m u b = (Inr r, [instance_call cfg m u b])"
  by (simp add: client_request_def)

lemma client_request_cases:
  obtains (rejected) e where
      "client_request cfg nw m u b = (Inl (Thrown (handleApiError e)), [instance_call cfg m u b])"
  | (resolved) r where "client_request cfg nw m u b = (Inr r, [instance_call cfg m u b])"
  by (cases "api_reply nw (instance_call cfg m u b)") (auto simp: client_request_def)

lemma task_url_string [simp]:
  "get_prop req ''uuid'' = JStr s \<Longrightarrow> task_url req suffix = Inr (''/task/'' @ s @ suffix)"
  by (simp add: task_url_def)

lemma task_call_Inr:
  "task_call cfg m req suffix = Inr c \<longleftrightarrow>
     (\<exists>u. task_url req suffix = Inr u \<and> c = instance_call cfg m u JUndefined)"
  by (auto simp: task_call_def split: sum.splits)

lemma getTasks_rejected:
  assumes "api_reply nw (instance_call cfg GET ''/tasks'' JUndefined) = Rejected e"
  shows "getTasks cfg nw =
    (if project_not_found e then Inr (JBool False) else Inl (Thrown (handleApiError e)),
     [instance_call cfg GET ''/tasks'' JUndefined])"
  by (simp add: getTasks_def client_request_rejected [OF assms] resolve_def reject_def
      project_not_found_def)

lemma getTasks_resolved:
  assumes "api_reply nw (instance_call cfg GET ''/tasks'' JUndefined) = Resolved r"
  shows "getTasks cfg nw =
    (if truthy (data r) then Inr (data r)
     else Inl (ErrorInstance ''Failed to fetch tasks'' []),
     [instance_call cfg GET ''/tasks'' JUndefined])"
  by (simp add: getTasks_def client_request_resolved [OF assms] resolve_def reject_def
      new_Error_def)

lemma get_task_field_rejected:
  assumes "task_url req suffix = Inr u"
    and "api_reply nw (instance_call cfg GET u JUndefined) = Rejected e"
  shows "get_task_field cfg nw req suffix field failure =
    (Inl (Thrown (handleApiError e)), [instance_call cfg GET u JUndefined])"
  by (simp add: get_task_field_def assms(1) client_request_rejected [OF assms(2)])

lemma get_task_field_resolved:
  assumes "task_url req suffix = Inr u"
    and "api_reply nw (instance_call cfg GET u JUndefined) = Resolved r"
  shows "get_task_field cfg nw req suffix field failure =
    (if truthy (get_prop (data r) field) then Inr (get_prop (data r) field)
     else Inl (ErrorInstance failure []),
     [instance_call cfg GET u JUndefined])"
  by (simp add: get_task_field_def assms(1) client_request_resolved [OF assms(2)] resolve_def
      reject_def new_Error_def)

lemma get_task_field_cases:
  obtains (failed) err tr where "\<not> isMcpError err \<or> (\<exists>e. err = Thrown (handleApiError e))"
      "get_task_field cfg nw req suffix field failure = (Inl err, tr)"
  | (found) v tr where "truthy v"
      "get_task_field cfg nw req suffix field failure = (Inr v, tr)"
proof (cases "task_url req suffix")
  case (Inl x)
  then have "x = TypeError_primitive"
    by (auto simp: task_url_def dest: ToString_throws_primitive split: sum.splits)
  with Inl show ?thesis
    by (intro failed [of x "[]"])
      (auto simp: get_task_field_def reject_def TypeError_primitive_def)
next
  case (Inr u)
  show ?thesis
  proof (cases rule: client_request_cases [of cfg nw GET u JUndefined])
    case (rejected e)
    with Inr show ?thesis
      by (intro failed [of "Thrown (handleApiError e)"]) (auto simp: get_task_field_def)
  next
    case (resolved r)
    show ?thesis
    proof (cases "truthy (get_prop (data r) field)")
      case True
      with resolved Inr show ?thesis
        by (intro found [of "get_prop (data r) field"])
          (auto simp: get_task_field_def resolve_def)
    next
      case False
      with resolved Inr show ?thesis
        by (intro failed [of "ErrorInstance failure []"])
          (auto simp: get_task_field_def reject_def new_Error_def)
    qed
  qed
qed

lemma client_method_rejected:
  assumes "api_call cfg t req = Inr c"
    and "api_reply nw c = Rejected e"
    and "t = get_tasks \<longrightarrow> \<not> project_not_found e"
  shows "client_method cfg nw t req = (Inl (Thrown (handleApiError e)), [c])"
proof (cases t)
  case get_tasks
  with assms show ?thesis by (auto simp: getTasks_rejected)
next
  case close_task
  with assms show ?thesis
    by (auto simp: closeTask_def task_call_Inr client_request_rejected)
next
  case get_task_screenshot
  with assms show ?thesis
    by (auto simp: getTaskScreenshot_def task_call_Inr client_request_rejected)
qed (use assms in \<open>auto simp: getProjects_def getCurrentProject_def setProject_def
      getTaskPrompt_def getTaskDescription_def getTaskConsoleLogs_def getTaskNetworkLogs_def
      getTaskActionLogs_def task_call_Inr get_task_field_rejected client_request_rejected\<close>)

section \<open>The handlers on a method that rejects\<close>

lemmas handler_defs =
  get_projects_handler_def get_current_project_handler_def set_project_handler_def
  get_tasks_handler_def get_task_description_handler_def get_task_prompt_handler_def
  get_task_console_logs_handler_def get_task_network_logs_handler_def
  get_task_action_logs_handler_def get_task_screenshot_handler_def close_task_handler_def

lemma args_uuid_object [simp]:
  "\<not> nullish args \<Longrightarrow> args_uuid args = resolve (get_prop args ''uuid'')"
  by (simp add: args_uuid_def read_prop_def)

lemma args_uuid_nullish [simp]:
  "nullish args \<Longrightarrow> args_uuid args = reject (TypeError_read args ''uuid'')"
  by (simp add: args_uuid_def read_prop_def)

lemma tool_handler_rejected:
  assumes "m (request_of t args) = (Inl err, tr)"
    and "has_inputSchema t \<longrightarrow> \<not> nullish args"
    and "t = set_project \<longrightarrow> truthy (get_prop args ''uuid'')"
  shows "tool_handler t m args = (handleError err, tr)"
  using assms by (cases t) (simp_all add: handler_defs request_of_def)

lemma caught_rejects:
  assumes "caught p = (Inl x, tr)"
  shows "\<exists>err. fst p = Inl err \<and> handleError err = Inl x"
proof (cases p)
  case (Pair y reqs)
  with assms show ?thesis by (cases y) auto
qed

lemma tool_handler_rejects_only_by_handleError:
  assumes "tool_handler t m args = (Inl x, tr)"
  shows "\<exists>err. handleError err = Inl x"
  using assms by (cases t) (auto simp: handler_defs dest: caught_rejects)

lemma tool_callback_rejected:
  assumes "api_call cfg t (request_of t args) = Inr c"
    and "api_reply nw c = Rejected e"
    and "t = get_tasks \<longrightarrow> \<not> project_not_found e"
    and "has_inputSchema t \<longrightarrow> \<not> nullish args"
    and "t = set_project \<longrightarrow> truthy (get_prop args ''uuid'')"
  shows "tool_callback cfg nw t args = (handleError (Thrown (handleApiError e)), [c])"
  unfolding tool_callback_def
  by (rule tool_handler_rejected [of "client_method cfg nw t" t args,
        OF client_method_rejected [OF assms(1,2,3)] assms(4,5)])

lemma thrown_prop_Thrown: "thrown_prop (Thrown v) k = get_prop v k"
  by simp

lemma handleError_401:
  assumes "response e = Some r" and "status r = 401"
  shows "handleError (Thrown (handleApiError e)) =
     Inr \<lparr>content =
            [TextContent
               (''Error 401: Unauthorized: Invalid or missing API key''
                @ (if truthy (data r)
                   then [newline] @ ''Details: '' @ JSON_text (data r)
                   else []))],
          isError = True\<rparr>"
  using assms
  by (simp add: handleError_McpError [where c = "''401''"
        and m = "''Unauthorized: Invalid or missing API key''"]
      handleApiError_response Number_toString_401)

lemma handleApiError_message:
  "get_prop (handleApiError e) ''message'' =
     (case response e of
        Some r \<Rightarrow>
          (if status r = 401 then JStr ''Unauthorized: Invalid or missing API key''
           else if status r = 403 then JStr ''Forbidden: Access denied''
           else if status r = 404 then JStr ''Not Found: Resource not found''
           else if status r = 429 then JStr ''Rate Limit Exceeded: Too many requests''
           else if status r = 500 then JStr ''Internal Server Error: Webvizio API error''
           else if truthy (get_prop (data r) ''message'') then get_prop (data r) ''message''
           else if truthy (get_prop (data r) ''error'') then get_prop (data r) ''error''
           else JStr (''HTTP '' @ Number_toString (status r) @ '': '' @ statusText r))
      | None \<Rightarrow>
          (if request e then JStr ''Network Error: Unable to reach Webvizio API''
           else JStr (''Request Error: '' @ message e)))"
  by (simp add: handleApiError_response handleApiError_no_response split: option.splits)

section \<open>Further facts about the adapter and the handlers\<close>

lemma not_McpError_ErrorInstance_Nil [simp]: "\<not> isMcpError (ErrorInstance msg [])"
  by simp

lemma handleError_ErrorInstance_Nil [simp]:
  "handleError (ErrorInstance msg []) =
     Inr \<lparr>content = [TextContent (''Error: '' @ msg)], isError = True\<rparr>"
  by (simp add: handleError_other)

lemma log_tool_empty_payload:
  assumes "is_log_tool t"
    and "api_call cfg t (request_of t args) = Inr c"
    and "api_reply nw c = Resolved r"
    and "\<not> truthy (get_prop (data r) ''prompt'')"
    and "\<not> nullish args"
  shows "tool_callback cfg nw t args =
    (Inr \<lparr>content = [TextContent (''Error: '' @ log_failure t)], isError = True\<rparr>, [c])"
  using assms
  by (auto simp: is_log_tool_def tool_callback_def handler_defs request_of_def
      getTaskConsoleLogs_def getTaskNetworkLogs_def getTaskActionLogs_def task_call_Inr
      get_task_field_resolved log_failure_def)

lemma log_handler_falsy_result:
  assumes "is_log_tool t" and "m (request_of t args) = (Inr v, tr)" and "\<not> truthy v"
    and "\<not> nullish args"
  shows "tool_handler t m args = (Inr (text_result (no_logs_text t)), tr)"
  using assms
  by (auto simp: is_log_tool_def handler_defs request_of_def no_logs_text_def resolve_def)

lemma log_method_never_falsy:
  assumes "is_log_tool t" and "client_method cfg nw t req = (Inr v, tr)"
  shows "truthy v"
proof -
  obtain suffix failure where m: "client_method cfg nw t req
      = get_task_field cfg nw req suffix ''prompt'' failure"
    using assms(1)
    by (auto simp: is_log_tool_def getTaskConsoleLogs_def getTaskNetworkLogs_def
        getTaskActionLogs_def)
  show ?thesis
    by (cases rule: get_task_field_cases [of cfg nw req suffix "''prompt''" failure])
      (use assms(2) m in auto)
qed

lemma text_result_eq [simp]: "text_result a = text_result b \<longleftrightarrow> a = b"
  by (simp add: text_result_def)

text \<open>
  With the adapter of the repository, no log tool ever answers its fixed text: the method
  rejects where the handler would take that branch.
\<close>

lemma log_tool_text_unreachable:
  assumes "is_log_tool t"
  shows "fst (tool_callback cfg nw t args) \<noteq> Inr (text_result (no_logs_text t))"
proof (cases "nullish args")
  case True
  with assms show ?thesis
    by (auto simp: is_log_tool_def tool_callback_def handler_defs lift_def)
next
  case False
  obtain x tr where m: "client_method cfg nw t (request_of t args) = (x, tr)"
    by (cases "client_method cfg nw t (request_of t args)")
  show ?thesis
  proof (cases x)
    case (Inl err)
    with m False assms have "tool_callback cfg nw t args = (handleError err, tr)"
      unfolding tool_callback_def
      by (intro tool_handler_rejected) (auto simp: is_log_tool_def)
    then show ?thesis by simp
  next
    case (Inr v)
    with m assms have "truthy v" by (auto dest: log_method_never_falsy)
    with m Inr False assms show ?thesis
      by (cases "ToString v")
        (auto simp: is_log_tool_def tool_callback_def handler_defs request_of_def resolve_def
          reject_def lift_def no_logs_text_def)
  qed
qed

lemma getTaskPrompt_resolved:
  assumes "task_url req ''/prompt'' = Inr u"
    and "api_reply nw (instance_call cfg GET u JUndefined) = Resolved r"
    and "truthy (get_prop (data r) ''prompt'')"
  shows "getTaskPrompt cfg nw req =
    (Inr (get_prop (data r) ''prompt''), [instance_call cfg GET u JUndefined])"
  using assms by (simp add: getTaskPrompt_def get_task_field_resolved)

lemma set_project_empty_uuid_fails_locally:
  assumes "\<not> truthy (get_prop args ''uuid'')" and "\<not> nullish args"
  shows "set_project_handler m args =
    (Inr \<lparr>content = [TextContent ''Error: project uuid is required''], isError = True\<rparr>, [])"
  using assms
  by (simp add: set_project_handler_def new_Error_def resolve_def)

lemma missing_uuid_rejected_by_schema:
  assumes "has_inputSchema t" and "\<And>s. get_prop args ''uuid'' \<noteq> JStr s"
  shows "call_tool cfg nw t args = InvalidArguments"
  using assms by (auto simp: call_tool_def parse_uuid_schema_def split: jsval.splits)

lemma api_call_string_uuid:
  "get_prop args ''uuid'' = JStr s \<Longrightarrow> \<exists>c. api_call cfg t (request_of t args) = Inr c"
  by (cases t) (simp_all add: request_of_def task_call_def)

lemma client_method_first_call:
  assumes "api_call cfg t req = Inr c"
  shows "\<exists>x rest. client_method cfg nw t req = (x, c # rest)"
proof -
  have cr: "\<exists>x. client_request cfg nw m u b = (x, [instance_call cfg m u b])" for m u b
    by (simp add: client_request_def Let_def)
  have aw: "\<exists>x rest. await p f = (x, c # rest)" if "\<exists>x. p = (x, [c])"
    for p :: "http_response promise" and f :: "http_response \<Rightarrow> jsval promise" and c
  proof -
    from that obtain x where p: "p = (x, [c])" by blast
    show ?thesis by (cases x) (simp_all add: p)
  qed
  have tc: "\<exists>x rest. try_catch p h = (x, c # rest)" if "\<exists>x rest. p = (x, c # rest)"
    for p :: "jsval promise" and h c
  proof -
    from that obtain x rest where p: "p = (x, c # rest)" by blast
    show ?thesis by (cases x) (simp_all add: p)
  qed
  show ?thesis
    using assms
    by (cases t)
      (auto simp: getProjects_def getCurrentProject_def setProject_def getTasks_def
        getTaskDescription_def getTaskPrompt_def getTaskConsoleLogs_def getTaskNetworkLogs_def
        getTaskActionLogs_def getTaskScreenshot_def closeTask_def get_task_field_def
        task_call_Inr intro!: aw cr tc)
qed

text \<open>
  The seven task tools other than \<^verbatim>\<open>set_project\<close> dispatch their request whatever the
  identifier is, the empty string included.
\<close>

lemma task_tool_dispatches_without_check:
  assumes "has_inputSchema t" and "t \<noteq> set_project" and "\<not> nullish args"
    and "api_call cfg t (request_of t args) = Inr c"
  shows "\<exists>rest. snd (tool_callback cfg nw t args) = c # rest"
proof -
  obtain x rest where m: "client_method cfg nw t (request_of t args) = (x, c # rest)"
    using client_method_first_call [OF assms(4)] by blast
  have h: "\<exists>rest'. snd (caught (await (y, c # rest) f)) = c # rest'"
    for y :: "thrown + jsval" and f :: "jsval \<Rightarrow> tool_result promise"
  proof (cases y)
    case (Inl err)
    then show ?thesis by simp
  next
    case (Inr v)
    obtain z reqs where f: "f v = (z, reqs)" by (cases "f v")
    with Inr show ?thesis by (cases z) simp_all
  qed
  show ?thesis
    using assms(1,2,3) m h
    by (cases t) (simp_all add: tool_callback_def handler_defs request_of_def)
qed

text \<open>
  A failure of the second request of \<^verbatim>\<open>getTaskScreenshot\<close> does not pass the interceptor: the
  method rejects with what the library threw.
\<close>

lemma screenshot_image_fetch_failure:
  assumes "task_url req ''/screenshot'' = Inr u"
    and "api_reply nw (instance_call cfg GET u JUndefined) = Resolved r"
    and "truthy (get_prop (data r) ''screenshot'')"
    and "raw_reply nw (global_call (get_prop (data r) ''screenshot'')) = RawRejected err"
  shows "getTaskScreenshot cfg nw req =
    (Inl err, [instance_call cfg GET u JUndefined,
               global_call (get_prop (data r) ''screenshot'')])"
  using assms
  by (simp add: getTaskScreenshot_def client_request_resolved raw_get_def)

text \<open>
  With the adapter of the repository, \<^verbatim>\<open>setProject\<close> never resolves with a falsy value: the
  second text of the \<^verbatim>\<open>set_project\<close> handler needs another adapter.
\<close>

lemma setProject_never_falsy:
  assumes "setProject cfg nw req = (Inr v, tr)"
  shows "truthy v"
proof (cases rule: client_request_cases [of cfg nw POST "''/set-project''" req])
  case (rejected e)
  with assms show ?thesis by (simp add: setProject_def)
next
  case (resolved r)
  with assms show ?thesis
    by (cases "truthy (data r)") (auto simp: setProject_def resolve_def reject_def)
qed

lemma no_project_hint_text:
  "no_project_hint =
     ''No project selected. You need to get the list of projects via get_projects tool ''
     @ ''select the uuid of the required project and set it using set_project tool''"
  by (simp add: no_project_hint_def)

lemma hint_is_not_found_text [simp]:
  "CHR ''F'' # s \<noteq> no_project_hint" "no_project_hint \<noteq> CHR ''F'' # s"
  by (simp_all add: no_project_hint_def)

lemma serialize_array_defined:
  "SerializeJSONProperty ind (JArr xs) = Some (case SerializeJSONProperty ind (JArr xs) of
     Some s \<Rightarrow> s | None \<Rightarrow> [])"
  by (simp add: Let_def)

lemma base64_png_magic: "base64_encode png_magic = ''iVBORw==''"
  by (simp add: png_magic_def b64_char_def b64_alphabet_def)

text \<open>The test vectors of RFC 4648 for \<^verbatim>\<open>f\<close>, \<^verbatim>\<open>fo\<close> and \<^verbatim>\<open>foobar\<close>.\<close>

lemma base64_rfc4648_vectors:
  "base64_encode [0x66] = ''Zg==''"
  "base64_encode [0x66, 0x6F] = ''Zm8=''"
  "base64_encode [0x66, 0x6F, 0x6F, 0x62, 0x61, 0x72] = ''Zm9vYmFy''"
  by (simp_all add: b64_char_def b64_alphabet_def)

lemma get_tasks_outcomes:
  assumes "api_reply nw (instance_call cfg GET ''/tasks'' JUndefined) = Rejected e"
  shows "project_not_found e \<longrightarrow>
         getTasks cfg nw = (Inr (JBool False), [instance_call cfg GET ''/tasks'' JUndefined])
       \<and> tool_callback cfg nw get_tasks args =
           (Inr \<lparr>content =
                   [TextContent
                      (''No project selected. You need to get the list of projects via ''
                       @ ''get_projects tool select the uuid of the required project ''
                       @ ''and set it using set_project tool'')],
                 isError = False\<rparr>,
            [instance_call cfg GET ''/tasks'' JUndefined])"
    and "\<not> project_not_found e \<longrightarrow>
         getTasks cfg nw =
           (Inl (Thrown (handleApiError e)), [instance_call cfg GET ''/tasks'' JUndefined])
       \<and> tool_callback cfg nw get_tasks args =
           (handleError (Thrown (handleApiError e)),
            [instance_call cfg GET ''/tasks'' JUndefined])"
  by (simp_all add: getTasks_rejected [OF assms] tool_callback_def get_tasks_handler_def
      resolve_def text_result_def no_project_hint_def)

section \<open>The claims\<close>

text \<open>
  C1, as amended. The error reduction \<^verbatim>\<open>handleApiError\<close> is the response interceptor of the
  configured instance. When the library's error carries a response \<open>r\<close>, the code of the
  normalized error is the status of \<open>r\<close>, its detail is the body of \<open>r\<close>, and its message is
  the fixed one for the statuses 401, 403, 404, 429 and 500 and otherwise the body's truthy
  \<^verbatim>\<open>message\<close> field, else its truthy \<^verbatim>\<open>error\<close> field, else
  \<^verbatim>\<open>HTTP <status>: <statusText>\<close>. Without a response the code is 0 when a request was
  dispatched and -1 when it was not, and the detail carries the library's message. The result
  always has the shape \<^verbatim>\<open>isMcpError\<close> tests for. Every request through the configured
  instance that is rejected rejects with it, and so does every adapter method whose request
  to the remote service is rejected: the methods behind the eleven tools (\<^verbatim>\<open>getTasks\<close> unless
  it takes the error for a missing project) and \<^verbatim>\<open>getTaskErrorLogs\<close>.
\<close>

theorem handleApiError_table:
  "(response e = Some r \<longrightarrow>
      get_prop (handleApiError e) ''code'' = JNum (status r)
    \<and> get_prop (handleApiError e) ''details'' = data r
    \<and> get_prop (handleApiError e) ''message'' =
        (if status r = 401 then JStr ''Unauthorized: Invalid or missing API key''
         else if status r = 403 then JStr ''Forbidden: Access denied''
         else if status r = 404 then JStr ''Not Found: Resource not found''
         else if status r = 429 then JStr ''Rate Limit Exceeded: Too many requests''
         else if status r = 500 then JStr ''Internal Server Error: Webvizio API error''
         else if truthy (get_prop (data r) ''message'') then get_prop (data r) ''message''
         else if truthy (get_prop (data r) ''error'') then get_prop (data r) ''error''
         else JStr (''HTTP '' @ Number_toString (status r) @ '': '' @ statusText r)))
   \<and> (response e = None \<longrightarrow>
        get_prop (handleApiError e) ''code'' = JNum (if request e then 0 else - 1)
      \<and> get_prop (handleApiError e) ''details'' = JObj [(''originalError'', JStr (message e))]
      \<and> get_prop (handleApiError e) ''message'' =
          (if request e then JStr ''Network Error: Unable to reach Webvizio API''
           else JStr (''Request Error: '' @ message e)))
   \<and> isMcpError (Thrown (handleApiError e))
   \<and> (api_reply nw (instance_call cfg m u b) = Rejected e \<longrightarrow>
        client_request cfg nw m u b
          = (Inl (Thrown (handleApiError e)), [instance_call cfg m u b]))
   \<and> (api_call cfg t req = Inr c \<and> api_reply nw c = Rejected e
        \<and> (t = get_tasks \<longrightarrow> \<not> project_not_found e) \<longrightarrow>
        client_method cfg nw t req = (Inl (Thrown (handleApiError e)), [c]))
   \<and> (task_url req ''/error-logs'' = Inr p
        \<and> api_reply nw (instance_call cfg GET p JUndefined) = Rejected e \<longrightarrow>
        getTaskErrorLogs cfg nw req
          = (Inl (Thrown (handleApiError e)), [instance_call cfg GET p JUndefined]))"
  by (simp add: handleApiError_response handleApiError_no_response client_request_rejected
      client_method_rejected getTaskErrorLogs_def get_task_field_rejected)

text \<open>
  The table at a 401, at a status outside the table with and without a body to take the
  message from, at a timeout and at a request that was never sent.
\<close>

theorem handleApiError_table_witness:
  "get_prop (handleApiError error_401) ''code'' = JNum 401
   \<and> get_prop (handleApiError error_401) ''message''
       = JStr ''Unauthorized: Invalid or missing API key''
   \<and> get_prop (handleApiError error_401) ''details''
       = JObj [(''message'', JStr ''Project not found'')]
   \<and> get_prop (handleApiError error_418) ''code'' = JNum 418
   \<and> get_prop (handleApiError error_418) ''message'' = JStr ''short and stout''
   \<and> get_prop (handleApiError error_503) ''message'' = JStr ''HTTP 503: Service Unavailable''
   \<and> get_prop (handleApiError error_timeout) ''code'' = JNum 0
   \<and> get_prop (handleApiError error_setup) ''code'' = JNum (- 1)
   \<and> client_request example_config (net_rejecting error_timeout) GET ''/projects'' JUndefined
       = (Inl (Thrown (handleApiError error_timeout)),
          [instance_call example_config GET ''/projects'' JUndefined])
   \<and> closeTask example_config (net_rejecting error_timeout) (JObj [(''uuid'', JStr ''t1'')])
       = (Inl (Thrown (handleApiError error_timeout)),
          [instance_call example_config POST ''/task/t1/close'' JUndefined])
   \<and> getTaskErrorLogs example_config (net_rejecting error_timeout)
         (JObj [(''uuid'', JStr ''t1'')])
       = (Inl (Thrown (handleApiError error_timeout)),
          [instance_call example_config GET ''/task/t1/error-logs'' JUndefined])"
  using
    handleApiError_table [of error_401 "the (response error_401)"]
    handleApiError_table [of error_418 "the (response error_418)"]
    handleApiError_table [of error_503 "the (response error_503)"]
    handleApiError_table [of error_timeout _ "net_rejecting error_timeout" example_config
      GET "''/projects''" JUndefined close_task "JObj [(''uuid'', JStr ''t1'')]"
      "instance_call example_config POST ''/task/t1/close'' JUndefined"
      "''/task/t1/error-logs''"]
    handleApiError_table [of error_setup]
  by (simp add: error_401_def error_418_def error_503_def error_timeout_def error_setup_def
      net_rejecting_def Number_toString_def show_int_def show_nat.simps digit_char_def
      task_call_def)

text \<open>
  C1 as stated, for every operation and each failure of a request, fails at the second
  request of \<^verbatim>\<open>getTaskScreenshot\<close>, which goes through the global instance: when the host of
  the image answers 404, the method rejects with the library's own error, whose code is
  \<^verbatim>\<open>ERR_BAD_REQUEST\<close> and not the status, and the tool's text carries the library's message
  and not the fixed one for 404.
\<close>

theorem screenshot_fetch_counterexample:
  "raw_reply net_image_404
     \<lparr>verb = GET, baseURL = [], url = JStr ''https://cdn.example/s.png'', headers = [],
      body = JUndefined, responseType = ArrayBuffer\<rparr> = RawRejected axios_404
   \<and> getTaskScreenshot example_config net_image_404 (JObj [(''uuid'', JStr ''t1'')]) =
       (Inl axios_404,
        [instance_call example_config GET ''/task/t1/screenshot'' JUndefined,
         \<lparr>verb = GET, baseURL = [], url = JStr ''https://cdn.example/s.png'', headers = [],
          body = JUndefined, responseType = ArrayBuffer\<rparr>])
   \<and> thrown_prop axios_404 ''code'' = JStr ''ERR_BAD_REQUEST''
   \<and> tool_callback example_config net_image_404 get_task_screenshot
         (JObj [(''uuid'', JStr ''t1'')]) =
       (Inr \<lparr>content =
               [TextContent ''Error ERR_BAD_REQUEST: Request failed with status code 404''],
             isError = True\<rparr>,
        [instance_call example_config GET ''/task/t1/screenshot'' JUndefined,
         \<lparr>verb = GET, baseURL = [], url = JStr ''https://cdn.example/s.png'', headers = [],
          body = JUndefined, responseType = ArrayBuffer\<rparr>])"
proof -
  have m: "getTaskScreenshot example_config net_image_404 (JObj [(''uuid'', JStr ''t1'')]) =
       (Inl axios_404,
        [instance_call example_config GET ''/task/t1/screenshot'' JUndefined,
         global_call (JStr ''https://cdn.example/s.png'')])"
    using screenshot_image_fetch_failure [of "JObj [(''uuid'', JStr ''t1'')]"
        "''/task/t1/screenshot''" net_image_404 example_config
        "\<lparr>status = 200, statusText = ''OK'',
          data = JObj [(''screenshot'', JStr ''https://cdn.example/s.png'')]\<rparr>" axios_404]
    by (simp add: net_image_404_def)
  have h: "handleError axios_404 =
      Inr \<lparr>content =
             [TextContent ''Error ERR_BAD_REQUEST: Request failed with status code 404''],
           isError = True\<rparr>"
    by (simp add: handleError_def axios_404_def)
  show ?thesis
    using m h
    by (simp add: tool_callback_def get_task_screenshot_handler_def nullish_def
        global_call_def)
      (simp add: net_image_404_def axios_404_def)
qed

text \<open>
  C2 does not hold of the code. The first half does (\<open>get_tasks_outcomes\<close>): when the detail
  of the normalized error has the message \<^verbatim>\<open>Project not found\<close>, \<^verbatim>\<open>getTasks\<close> resolves with
  \<^verbatim>\<open>false\<close> and the tool answers the hint, not marked as an error; any other failure reaches
  \<^verbatim>\<open>handleError\<close>. But \<^verbatim>\<open>handleError\<close> does not always return: \<^verbatim>\<open>get_tasks\<close>, when the remote
  service answers 400 with the body \<^verbatim>\<open>{"message": {"toString": 1}}\<close>, takes the body's message
  for the message of the error; the template literal of \<^verbatim>\<open>handleError\<close> cannot convert it and
  throws inside the \<^verbatim>\<open>catch\<close> block, and the handler rejects instead of answering an error
  result.
\<close>

theorem get_tasks_failure_escapes:
  "tool_callback example_config (net_rejecting error_400) get_tasks JUndefined =
     (Inl (ErrorInstance ''Cannot convert object to primitive value'' []),
      [instance_call example_config GET ''/tasks'' JUndefined])"
proof -
  have "\<not> project_not_found error_400"
    by (simp add: project_not_found_def handleApiError_details error_400_def)
  then have
    "tool_callback example_config (net_rejecting error_400) get_tasks JUndefined =
       (handleError (Thrown (handleApiError error_400)),
        [instance_call example_config GET ''/tasks'' JUndefined])"
    by (simp add: tool_callback_def get_tasks_handler_def net_rejecting_def
        getTasks_rejected [where e = error_400])
  moreover have "get_prop (handleApiError error_400) ''code'' = JNum 400"
    and "get_prop (handleApiError error_400) ''message'' = JObj [(''toString'', JNum 1)]"
    by (simp_all add: handleApiError_code handleApiError_message error_400_def)
  then have "handleError (Thrown (handleApiError error_400)) =
      Inl (ErrorInstance ''Cannot convert object to primitive value'' [])"
    by (simp add: handleError_def TypeError_primitive_def)
  ultimately show ?thesis by simp
qed

text \<open>
  C3, as amended. For each of the eleven tools, when the request of the tool to the remote
  service is rejected with a response of status 401, the tool answers a result marked as an
  error whose text is \<^verbatim>\<open>Error 401: Unauthorized: Invalid or missing API key\<close>, followed by
  the detail block when the body is truthy; except for \<^verbatim>\<open>get_tasks\<close> when the body of the 401
  has the message \<^verbatim>\<open>Project not found\<close>. The hypotheses say that the request is dispatched:
  its path can be built, and the arguments are an object for the tools with an input schema,
  with a truthy \<^verbatim>\<open>uuid\<close> for \<^verbatim>\<open>set_project\<close>.
\<close>

theorem unauthorized_is_error:
  assumes "api_call cfg t (request_of t args) = Inr c"
    and "api_reply nw c = Rejected e"
    and "response e = Some r" and "status r = 401"
    and "t = get_tasks \<longrightarrow> get_prop (data r) ''message'' \<noteq> JStr ''Project not found''"
    and "has_inputSchema t \<longrightarrow> \<not> nullish args"
    and "t = set_project \<longrightarrow> truthy (get_prop args ''uuid'')"
  shows "tool_callback cfg nw t args =
    (Inr \<lparr>content =
            [TextContent
               (''Error 401: Unauthorized: Invalid or missing API key''
                @ (if truthy (data r)
                   then [newline] @ ''Details: '' @ JSON_text (data r)
                   else []))],
          isError = True\<rparr>,
     [c])"
proof -
  from assms(3,5) have "t = get_tasks \<longrightarrow> \<not> project_not_found e"
    by (simp add: project_not_found_def handleApiError_response)
  from tool_callback_rejected [OF assms(1,2) this assms(6,7)] handleError_401 [OF assms(3,4)]
  show ?thesis by simp
qed

text \<open>\<^verbatim>\<open>close_task\<close> on a 401 whose body is \<^verbatim>\<open>{"message": "Project not found"}\<close>.\<close>

theorem unauthorized_is_error_witness:
  "tool_callback example_config (net_rejecting error_401) close_task
     (JObj [(''uuid'', JStr ''t1'')]) =
     (Inr \<lparr>content =
             [TextContent
                (''Error 401: Unauthorized: Invalid or missing API key'' @ [newline]
                 @ ''Details: {'' @ [newline] @ ''  '' @ [CHR 0x22] @ ''message'' @ [CHR 0x22]
                 @ '': '' @ [CHR 0x22] @ ''Project not found'' @ [CHR 0x22] @ [newline]
                 @ ''}'')],
           isError = True\<rparr>,
      [instance_call example_config POST ''/task/t1/close'' JUndefined])"
  using unauthorized_is_error [of example_config close_task
      "JObj [(''uuid'', JStr ''t1'')]"
      "instance_call example_config POST ''/task/t1/close'' JUndefined"
      "net_rejecting error_401" error_401 "the (response error_401)"]
  by (simp add: net_rejecting_def error_401_def request_of_def nullish_def task_call_def
      JSON_text_def QuoteJSONString_def QuoteJSONChar_def)

text \<open>
  C3 as stated fails for \<^verbatim>\<open>get_tasks\<close>: on the same 401 the adapter takes the body's message
  for the missing project and the tool answers the hint, not marked as an error.
\<close>

theorem unauthorized_get_tasks_counterexample:
  "api_reply (net_rejecting error_401) (instance_call example_config GET ''/tasks'' JUndefined)
     = Rejected error_401
   \<and> map_option status (response error_401) = Some 401
   \<and> tool_callback example_config (net_rejecting error_401) get_tasks JUndefined =
     (Inr \<lparr>content =
             [TextContent
                (''No project selected. You need to get the list of projects via ''
                 @ ''get_projects tool select the uuid of the required project ''
                 @ ''and set it using set_project tool'')],
           isError = False\<rparr>,
      [instance_call example_config GET ''/tasks'' JUndefined])"
proof -
  have "project_not_found error_401"
    by (simp add: project_not_found_def handleApiError_details error_401_def)
  then show ?thesis
    by (simp add: tool_callback_def getTasks_rejected [where e = error_401] net_rejecting_def
        get_tasks_handler_def text_result_def resolve_def no_project_hint_def)
      (simp add: error_401_def)
qed

text \<open>
  C4. The \<^verbatim>\<open>set_project\<close> handler on any adapter, called with a non-empty identifier
  \<open>ident\<close>: when the adapter resolves with \<open>success\<close>, the text is
  \<^verbatim>\<open>Successfully set project <ident> as current\<close> if \<open>success\<close> is truthy and
  \<^verbatim>\<open>Failed to set project <ident> as current\<close> if it is falsy; the result is not marked as an
  error. (An empty identifier does not reach the adapter.)
\<close>

theorem set_project_text:
  assumes "ident \<noteq> []"
    and "setProject_m (JObj [(''uuid'', JStr ident)]) = (Inr success, tr)"
  shows "set_project_handler setProject_m (JObj [(''uuid'', JStr ident)]) =
    (Inr \<lparr>content =
            [TextContent
               (if truthy success then ''Successfully set project '' @ ident @ '' as current''
                else ''Failed to set project '' @ ident @ '' as current'')],
          isError = False\<rparr>, tr)"
  using assms
  by (simp add: set_project_handler_def nullish_def resolve_def text_result_def)

text \<open>
  The identifier \<^verbatim>\<open>proj-123\<close> on an adapter that resolves with \<^verbatim>\<open>true\<close> and on one that
  resolves with \<^verbatim>\<open>false\<close>.
\<close>

theorem set_project_text_witness:
  "set_project_handler (\<lambda>req. (Inr (JBool True), [])) (JObj [(''uuid'', JStr ''proj-123'')]) =
     (Inr \<lparr>content = [TextContent ''Successfully set project proj-123 as current''],
           isError = False\<rparr>, [])
   \<and> set_project_handler (\<lambda>req. (Inr (JBool False), [])) (JObj [(''uuid'', JStr ''proj-123'')]) =
     (Inr \<lparr>content = [TextContent ''Failed to set project proj-123 as current''],
           isError = False\<rparr>, [])"
  using set_project_text [of "''proj-123''" "\<lambda>req. (Inr (JBool True), [])" "JBool True" "[]"]
    set_project_text [of "''proj-123''" "\<lambda>req. (Inr (JBool False), [])" "JBool False" "[]"]
  by simp

text \<open>
  C5 does not hold of the code. \<^verbatim>\<open>get_task_console_logs\<close> for the task \<^verbatim>\<open>t1\<close>, when the
  remote service answers 200 with the body \<^verbatim>\<open>{"prompt": ""}\<close>: \<^verbatim>\<open>getTaskConsoleLogs\<close> throws
  on the empty field, and the tool answers \<^verbatim>\<open>Error: Failed to get console logs prompt\<close>,
  marked as an error. The handler's branch for a falsy result (\<open>log_handler_falsy_result\<close>) is
  never reached through the adapter of the repository (\<open>log_tool_text_unreachable\<close>).
\<close>

theorem console_logs_empty_payload_is_error:
  "tool_callback example_config (net_answering (JObj [(''prompt'', JStr [])]) [])
     get_task_console_logs (JObj [(''uuid'', JStr ''t1'')]) =
     (Inr \<lparr>content = [TextContent ''Error: Failed to get console logs prompt''],
           isError = True\<rparr>,
      [instance_call example_config GET ''/task/t1/console-logs'' JUndefined])"
  using log_tool_empty_payload [of get_task_console_logs example_config
      "JObj [(''uuid'', JStr ''t1'')]"
      "instance_call example_config GET ''/task/t1/console-logs'' JUndefined"
      "net_answering (JObj [(''prompt'', JStr [])]) []"
      "\<lparr>status = 200, statusText = ''OK'', data = JObj [(''prompt'', JStr [])]\<rparr>"]
  by (simp add: is_log_tool_def net_answering_def request_of_def task_call_def nullish_def
      log_failure_def)

text \<open>
  C6 does not hold of the code. \<^verbatim>\<open>get_task_prompt\<close> with the empty identifier: the schema
  accepts the empty string, the handler has no check of its own, and the request
  \<^verbatim>\<open>GET /task//prompt\<close> is dispatched. Only \<^verbatim>\<open>set_project\<close> fails locally on an empty
  identifier (\<open>set_project_empty_uuid_fails_locally\<close>); arguments without a string \<^verbatim>\<open>uuid\<close>
  are turned down by the schema for all eight tools (\<open>missing_uuid_rejected_by_schema\<close>); the
  other seven dispatch their request whatever the identifier
  (\<open>task_tool_dispatches_without_check\<close>).
\<close>

theorem empty_uuid_reaches_the_service:
  "call_tool example_config (net_answering (JObj [(''prompt'', JStr ''do it'')]) [])
     get_task_prompt (JObj [(''uuid'', JStr [])]) =
     Ran (Inr \<lparr>content = [TextContent (''Task prompt:'' @ [newline, newline] @ ''do it'')],
               isError = False\<rparr>,
          [instance_call example_config GET ''/task//prompt'' JUndefined])"
  by (simp add: call_tool_def parse_uuid_schema_def tool_callback_def get_task_prompt_handler_def
      nullish_def net_answering_def
      getTaskPrompt_resolved
        [where u = "''/task//prompt''"
           and r = "\<lparr>status = 200, statusText = ''OK'',
                      data = JObj [(''prompt'', JStr ''do it'')]\<rparr>"]
      resolve_def text_result_def two_newlines_def)

text \<open>
  C7. \<^verbatim>\<open>get_task_screenshot\<close>, when the request for the screenshot resolves with a body whose
  \<^verbatim>\<open>screenshot\<close> field is truthy and the request for that URL resolves with the bytes
  \<open>bytes\<close>: exactly two requests are dispatched, the second one a \<^verbatim>\<open>GET\<close> of the value of the
  \<^verbatim>\<open>screenshot\<close> field, without a base URL, without headers and with the response type
  \<^verbatim>\<open>arraybuffer\<close>; the tool answers one image item of type \<^verbatim>\<open>image/png\<close> whose data is the
  Base64 text of \<open>bytes\<close>, not marked as an error; and the Base64 text decodes to \<open>bytes\<close>.
\<close>

theorem screenshot_round_trip:
  assumes "api_call cfg get_task_screenshot (request_of get_task_screenshot args) = Inr c"
    and "api_reply nw c = Resolved r"
    and "truthy (get_prop (data r) ''screenshot'')"
    and "raw_reply nw
           \<lparr>verb = GET, baseURL = [], url = get_prop (data r) ''screenshot'', headers = [],
            body = JUndefined, responseType = ArrayBuffer\<rparr> = RawResolved bytes"
    and "\<not> nullish args"
  shows "tool_callback cfg nw get_task_screenshot args =
      (Inr \<lparr>content = [ImageContent (JStr (base64_encode bytes)) ''image/png''],
            isError = False\<rparr>,
       [c,
        \<lparr>verb = GET, baseURL = [], url = get_prop (data r) ''screenshot'', headers = [],
         body = JUndefined, responseType = ArrayBuffer\<rparr>])
    \<and> base64_decode (base64_encode bytes) = Some bytes"
  using assms
  by (auto simp: tool_callback_def get_task_screenshot_handler_def getTaskScreenshot_def
      request_of_def task_call_Inr client_request_resolved raw_get_def resolve_def
      global_call_def base64_decode_encode)

text \<open>The first four bytes of a PNG file.\<close>

theorem screenshot_round_trip_witness:
  "tool_callback example_config
     (net_answering (JObj [(''screenshot'', JStr ''https://cdn.example/s.png'')]) png_magic)
     get_task_screenshot (JObj [(''uuid'', JStr ''t1'')]) =
     (Inr \<lparr>content = [ImageContent (JStr ''iVBORw=='') ''image/png''], isError = False\<rparr>,
      [instance_call example_config GET ''/task/t1/screenshot'' JUndefined,
       \<lparr>verb = GET, baseURL = [], url = JStr ''https://cdn.example/s.png'', headers = [],
        body = JUndefined, responseType = ArrayBuffer\<rparr>])
   \<and> base64_decode ''iVBORw=='' = Some [0x89, 0x50, 0x4E, 0x47]"
  using screenshot_round_trip [of example_config "JObj [(''uuid'', JStr ''t1'')]"
      "instance_call example_config GET ''/task/t1/screenshot'' JUndefined"
      "net_answering (JObj [(''screenshot'', JStr ''https://cdn.example/s.png'')]) png_magic"
      "\<lparr>status = 200, statusText = ''OK'',
        data = JObj [(''screenshot'', JStr ''https://cdn.example/s.png'')]\<rparr>" png_magic]
    base64_png_magic
  by (simp add: net_answering_def request_of_def task_call_def nullish_def)
    (simp add: png_magic_def)

text \<open>
  C8. The \<^verbatim>\<open>close_task\<close> handler on any adapter: when the adapter resolves, with whatever
  value, the text is \<^verbatim>\<open>Task closed successfully\<close> and the result is not marked as an error. On
  the adapter of the repository: when the request resolves with a body that is not
  \<^verbatim>\<open>null\<close> or \<^verbatim>\<open>undefined\<close>, \<^verbatim>\<open>closeTask\<close> resolves with the body's \<^verbatim>\<open>success\<close> field and
  the tool answers the same text.
\<close>

theorem close_task_fixed_text:
  "(\<not> nullish args \<and> closeTask_m (request_of close_task args) = (Inr result, tr) \<longrightarrow>
      close_task_handler closeTask_m args =
        (Inr \<lparr>content = [TextContent ''Task closed successfully''], isError = False\<rparr>, tr))
   \<and> (\<not> nullish args
        \<and> api_call cfg close_task (request_of close_task args) = Inr c
        \<and> api_reply nw c = Resolved r
        \<and> \<not> nullish (data r) \<longrightarrow>
      closeTask cfg nw (request_of close_task args) = (Inr (get_prop (data r) ''success''), [c])
      \<and> tool_callback cfg nw close_task args =
        (Inr \<lparr>content = [TextContent ''Task closed successfully''], isError = False\<rparr>, [c]))"
  by (auto simp: close_task_handler_def request_of_def resolve_def text_result_def
      tool_callback_def closeTask_def task_call_Inr client_request_resolved read_prop_def)

text \<open>An adapter, and a remote service, that report \<^verbatim>\<open>success: false\<close>.\<close>

theorem close_task_fixed_text_witness:
  "close_task_handler (\<lambda>req. (Inr (JBool False), [])) (JObj [(''uuid'', JStr ''t1'')]) =
     (Inr \<lparr>content = [TextContent ''Task closed successfully''], isError = False\<rparr>, [])
   \<and> closeTask example_config (net_answering (JObj [(''success'', JBool False)]) [])
       (JObj [(''uuid'', JStr ''t1'')]) =
     (Inr (JBool False), [instance_call example_config POST ''/task/t1/close'' JUndefined])
   \<and> tool_callback example_config (net_answering (JObj [(''success'', JBool False)]) [])
       close_task (JObj [(''uuid'', JStr ''t1'')]) =
     (Inr \<lparr>content = [TextContent ''Task closed successfully''], isError = False\<rparr>,
      [instance_call example_config POST ''/task/t1/close'' JUndefined])"
  using close_task_fixed_text [of "JObj [(''uuid'', JStr ''t1'')]"
      "\<lambda>req. (Inr (JBool False), [])" "JBool False" "[]" example_config
      "instance_call example_config POST ''/task/t1/close'' JUndefined"
      "net_answering (JObj [(''success'', JBool False)]) []"
      "\<lparr>status = 200, statusText = ''OK'', data = JObj [(''success'', JBool False)]\<rparr>"]
  by (simp add: net_answering_def request_of_def task_call_def nullish_def)

text \<open>
  C9 does not hold of the code. A handler whose method rejects with \<open>err\<close> ends as
  \<^verbatim>\<open>handleError(err)\<close> does (\<open>tool_handler_rejected\<close>), and a handler rejects only where
  \<^verbatim>\<open>handleError\<close> throws (\<open>tool_handler_rejects_only_by_handleError\<close>). Where \<^verbatim>\<open>handleError\<close>
  returns, the result is marked as an error and has the two texts of the claim
  (\<open>handleError_McpError\<close>, \<open>handleError_other\<close>, \<open>handleError_isError\<close>). But it throws
  where the code or the message of the error cannot be converted to a string
  (\<open>handleError_throws_iff\<close>): \<^verbatim>\<open>get_projects\<close>, when the remote service answers 400 with the
  body \<^verbatim>\<open>{"message": {"toString": 1}}\<close>, rejects with the \<^verbatim>\<open>TypeError\<close> of the conversion.
\<close>

theorem handler_failure_escapes:
  "tool_callback example_config (net_rejecting error_400) get_projects JUndefined =
     (Inl (ErrorInstance ''Cannot convert object to primitive value'' []),
      [instance_call example_config GET ''/projects'' JUndefined])"
proof -
  have "tool_callback example_config (net_rejecting error_400) get_projects JUndefined =
       (handleError (Thrown (handleApiError error_400)),
        [instance_call example_config GET ''/projects'' JUndefined])"
    by (simp add: tool_callback_def get_projects_handler_def getProjects_def net_rejecting_def
        client_request_rejected [where e = error_400])
  moreover have "get_prop (handleApiError error_400) ''code'' = JNum 400"
    and "get_prop (handleApiError error_400) ''message'' = JObj [(''toString'', JNum 1)]"
    by (simp_all add: handleApiError_code handleApiError_message error_400_def)
  then have "handleError (Thrown (handleApiError error_400)) =
      Inl (ErrorInstance ''Cannot convert object to primitive value'' [])"
    by (simp add: handleError_def TypeError_primitive_def)
  ultimately show ?thesis by simp
qed

text \<open>
  C10. The \<^verbatim>\<open>get_tasks\<close> handler answers the hint, the text that starts
  \<^verbatim>\<open>No project selected.\<close>, exactly when the adapter resolves with a value that is falsy or a
  boolean. When \<^verbatim>\<open>/tasks\<close> resolves with the body \<^verbatim>\<open>true\<close>, the tool answers the hint, not
  marked as an error. When it resolves with an array, empty or not, the tool answers
  \<^verbatim>\<open>Found <n> tasks:\<close>, an empty line and the array as \<^verbatim>\<open>JSON.stringify\<close> prints it with an
  indentation of two.
\<close>

theorem get_tasks_hint_iff:
  "(fst (get_tasks_handler p) =
      Inr \<lparr>content =
             [TextContent
                (''No project selected. You need to get the list of projects via ''
                 @ ''get_projects tool select the uuid of the required project ''
                 @ ''and set it using set_project tool'')],
           isError = False\<rparr>
      \<longleftrightarrow> (\<exists>v. fst p = Inr v \<and> (\<not> truthy v \<or> is_boolean v)))
   \<and> (api_reply nw (instance_call cfg GET ''/tasks'' JUndefined) = Resolved r
        \<and> data r = JBool True \<longrightarrow>
        tool_callback cfg nw get_tasks args =
          (Inr \<lparr>content =
                  [TextContent
                     (''No project selected. You need to get the list of projects via ''
                      @ ''get_projects tool select the uuid of the required project ''
                      @ ''and set it using set_project tool'')],
                isError = False\<rparr>,
           [instance_call cfg GET ''/tasks'' JUndefined]))
   \<and> (api_reply nw (instance_call cfg GET ''/tasks'' JUndefined) = Resolved r
        \<and> data r = JArr xs \<and> length xs < 2 ^ 32 \<longrightarrow>
        tool_callback cfg nw get_tasks args =
          (Inr \<lparr>content =
                  [TextContent
                     (''Found '' @ show_nat (length xs) @ '' tasks:'' @ [newline, newline]
                      @ JSON_text (JArr xs))],
                isError = False\<rparr>,
           [instance_call cfg GET ''/tasks'' JUndefined])
        \<and> SerializeJSONProperty [] (JArr xs) = Some (JSON_text (JArr xs)))"
proof (intro conjI)
  have hint: "\<lparr>content =
             [TextContent
                (''No project selected. You need to get the list of projects via ''
                 @ ''get_projects tool select the uuid of the required project ''
                 @ ''and set it using set_project tool'')],
           isError = False\<rparr> = text_result no_project_hint"
    by (simp add: text_result_def no_project_hint_def)
  show "fst (get_tasks_handler p) =
      Inr \<lparr>content =
             [TextContent
                (''No project selected. You need to get the list of projects via ''
                 @ ''get_projects tool select the uuid of the required project ''
                 @ ''and set it using set_project tool'')],
           isError = False\<rparr>
      \<longleftrightarrow> (\<exists>v. fst p = Inr v \<and> (\<not> truthy v \<or> is_boolean v))"
    unfolding hint
  proof (cases p)
    case (Pair x reqs)
    show "fst (get_tasks_handler p) = Inr (text_result no_project_hint)
      \<longleftrightarrow> (\<exists>v. fst p = Inr v \<and> (\<not> truthy v \<or> is_boolean v))"
    proof (cases x)
      case (Inl err)
      with Pair show ?thesis by (simp add: get_tasks_handler_def)
    next
      case (Inr v)
      with Pair show ?thesis
        by (cases "ToString (get_prop v ''length'')")
          (auto simp: get_tasks_handler_def resolve_def reject_def)
    qed
  qed
next
  show "api_reply nw (instance_call cfg GET ''/tasks'' JUndefined) = Resolved r
        \<and> data r = JBool True \<longrightarrow>
        tool_callback cfg nw get_tasks args =
          (Inr \<lparr>content =
                  [TextContent
                     (''No project selected. You need to get the list of projects via ''
                      @ ''get_projects tool select the uuid of the required project ''
                      @ ''and set it using set_project tool'')],
                isError = False\<rparr>,
           [instance_call cfg GET ''/tasks'' JUndefined])"
    by (simp add: tool_callback_def getTasks_resolved get_tasks_handler_def resolve_def
        text_result_def no_project_hint_def)
next
  show "api_reply nw (instance_call cfg GET ''/tasks'' JUndefined) = Resolved r
        \<and> data r = JArr xs \<and> length xs < 2 ^ 32 \<longrightarrow>
        tool_callback cfg nw get_tasks args =
          (Inr \<lparr>content =
                  [TextContent
                     (''Found '' @ show_nat (length xs) @ '' tasks:'' @ [newline, newline]
                      @ JSON_text (JArr xs))],
                isError = False\<rparr>,
           [instance_call cfg GET ''/tasks'' JUndefined])
        \<and> SerializeJSONProperty [] (JArr xs) = Some (JSON_text (JArr xs))"
    by (auto simp: tool_callback_def getTasks_resolved get_tasks_handler_def resolve_def
        text_result_def two_newlines_def JSON_text_def Number_toString_length Let_def)
qed

text \<open>The bodies \<^verbatim>\<open>true\<close>, \<^verbatim>\<open>[]\<close> and an array of one task.\<close>

theorem get_tasks_hint_iff_witness:
  "fst (get_tasks_handler (Inr (JBool True), [])) =
     Inr \<lparr>content =
            [TextContent
               (''No project selected. You need to get the list of projects via ''
                @ ''get_projects tool select the uuid of the required project ''
                @ ''and set it using set_project tool'')],
          isError = False\<rparr>
   \<and> fst (get_tasks_handler (Inr (JArr []), [])) \<noteq>
     Inr \<lparr>content =
            [TextContent
               (''No project selected. You need to get the list of projects via ''
                @ ''get_projects tool select the uuid of the required project ''
                @ ''and set it using set_project tool'')],
          isError = False\<rparr>
   \<and> tool_callback example_config (net_answering (JBool True) []) get_tasks JUndefined =
       (Inr \<lparr>content =
               [TextContent
                  (''No project selected. You need to get the list of projects via ''
                   @ ''get_projects tool select the uuid of the required project ''
                   @ ''and set it using set_project tool'')],
             isError = False\<rparr>,
        [instance_call example_config GET ''/tasks'' JUndefined])
   \<and> tool_callback example_config (net_answering (JArr []) []) get_tasks JUndefined =
       (Inr \<lparr>content = [TextContent (''Found 0 tasks:'' @ [newline, newline] @ ''[]'')],
             isError = False\<rparr>,
        [instance_call example_config GET ''/tasks'' JUndefined])
   \<and> tool_callback example_config
         (net_answering (JArr [JObj [(''number'', JNum 7), (''title'', JStr ''Fix'')]]) [])
         get_tasks JUndefined =
       (Inr \<lparr>content =
               [TextContent
                  (''Found 1 tasks:'' @ [newline, newline]
                   @ ''['' @ [newline]
                   @ ''  {'' @ [newline]
                   @ ''    '' @ [CHR 0x22] @ ''number'' @ [CHR 0x22] @ '': 7,'' @ [newline]
                   @ ''    '' @ [CHR 0x22] @ ''title'' @ [CHR 0x22] @ '': ''
                   @ [CHR 0x22] @ ''Fix'' @ [CHR 0x22] @ [newline]
                   @ ''  }'' @ [newline]
                   @ '']'')],
             isError = False\<rparr>,
        [instance_call example_config GET ''/tasks'' JUndefined])"
  using get_tasks_hint_iff [of "(Inr (JBool True), [])"
      "net_answering (JBool True) []" example_config
      "\<lparr>status = 200, statusText = ''OK'', data = JBool True\<rparr>" JUndefined]
    get_tasks_hint_iff [of "(Inr (JArr []), [])"
      "net_answering (JArr []) []" example_config
      "\<lparr>status = 200, statusText = ''OK'', data = JArr []\<rparr>" JUndefined "[]"]
    get_tasks_hint_iff [of "(Inr (JArr []), [])"
      "net_answering (JArr [JObj [(''number'', JNum 7), (''title'', JStr ''Fix'')]]) []"
      example_config
      "\<lparr>status = 200, statusText = ''OK'',
        data = JArr [JObj [(''number'', JNum 7), (''title'', JStr ''Fix'')]]\<rparr>" JUndefined
      "[JObj [(''number'', JNum 7), (''title'', JStr ''Fix'')]]"]
  by (simp add: net_answering_def JSON_text_def show_nat.simps digit_char_def
      Number_toString_def show_int_def QuoteJSONString_def QuoteJSONChar_def)

end
